theory Spec2Isabelle
  imports Main
begin

section \<open>Go strings: bytes, UTF-8 runes and the functions of package strings\<close>

text \<open>
  A Go string is a sequence of bytes; \<^typ>\<open>string\<close> is a list of 8-bit characters, so the
  model keeps the bytes. Functions of the Go library that work on runes (\<open>strings.Fields\<close>,
  \<open>strings.TrimSpace\<close>) decode UTF-8 as \<open>utf8.DecodeRuneInString\<close> does: an invalid
  byte is the rune \<open>U+FFFD\<close> of width 1.
\<close>

definition RuneError :: nat where
  "RuneError = 0xFFFD"

text \<open>The number of bytes the lead byte announces (0: not a valid lead byte).\<close>

definition seqSize :: "nat \<Rightarrow> nat" where
  "seqSize s0 =
     (if 0xC2 \<le> s0 \<and> s0 \<le> 0xDF then 2
      else if 0xE0 \<le> s0 \<and> s0 \<le> 0xEF then 3
      else if 0xF0 \<le> s0 \<and> s0 \<le> 0xF4 then 4
      else 0)"

text \<open>The range the second byte must lie in (\<open>acceptRanges\<close> of package utf8).\<close>

definition acceptLo :: "nat \<Rightarrow> nat" where
  "acceptLo s0 = (if s0 = 0xE0 then 0xA0 else if s0 = 0xF0 then 0x90 else 0x80)"

definition acceptHi :: "nat \<Rightarrow> nat" where
  "acceptHi s0 = (if s0 = 0xED then 0x9F else if s0 = 0xF4 then 0x8F else 0xBF)"

text \<open>
  \<open>utf8.DecodeRuneInString\<close>: the rune and its width. The masks and shifts of the Go code
  are written as \<open>mod\<close> and multiplication (\<open>s0 & 0x1F\<close> is \<open>s0 mod 32\<close>, \<open><< 6\<close> is
  \<open>* 64\<close>, and the parts joined by \<open>|\<close> have no bit in common).
\<close>

definition DecodeRuneInString :: "string \<Rightarrow> nat \<times> nat" where
  "DecodeRuneInString s =
     (if length s < 1 then (RuneError, 0)
      else let s0 = of_char (s ! 0) :: nat in
        if s0 < 0x80 then (s0, 1)
        else if seqSize s0 = 0 then (RuneError, 1)
        else if length s < seqSize s0 then (RuneError, 1)
        else let s1 = of_char (s ! 1) :: nat in
          if s1 < acceptLo s0 \<or> acceptHi s0 < s1 then (RuneError, 1)
          else if seqSize s0 \<le> 2 then ((s0 mod 32) * 64 + s1 mod 64, 2)
          else let s2 = of_char (s ! 2) :: nat in
            if s2 < 0x80 \<or> 0xBF < s2 then (RuneError, 1)
            else if seqSize s0 \<le> 3
              then ((s0 mod 16) * 4096 + (s1 mod 64) * 64 + s2 mod 64, 3)
            else let s3 = of_char (s ! 3) :: nat in
              if s3 < 0x80 \<or> 0xBF < s3 then (RuneError, 1)
              else ((s0 mod 8) * 262144 + (s1 mod 64) * 4096 + (s2 mod 64) * 64
                      + s3 mod 64, 4))"

lemma seqSize_cases: "seqSize b = 0 \<or> seqSize b = 2 \<or> seqSize b = 3 \<or> seqSize b = 4"
  by (simp add: seqSize_def)

lemma DecodeRuneInString_width:
  "s \<noteq> [] \<Longrightarrow> 1 \<le> snd (DecodeRuneInString s) \<and> snd (DecodeRuneInString s) \<le> length s"
proof -
  assume "s \<noteq> []"
  then have len: "1 \<le> length s" by (cases s) auto
  from seqSize_cases [of "of_char (s ! 0)"] show ?thesis
    using len by (elim disjE) (auto simp: DecodeRuneInString_def Let_def)
qed

text \<open>
  The runes of a string in order, each with the bytes it was decoded from: what
  \<open>for i, r := range s\<close> visits.
\<close>

function runes :: "string \<Rightarrow> (nat \<times> string) list" where
  "runes s =
     (if s = [] then []
      else (fst (DecodeRuneInString s), take (snd (DecodeRuneInString s)) s)
             # runes (drop (snd (DecodeRuneInString s)) s))"
  by pat_completeness auto
termination
proof (relation "measure length")
  show "wf (measure length)" by simp
next
  fix s :: string
  assume "s \<noteq> []"
  then have "1 \<le> snd (DecodeRuneInString s)"
    using DecodeRuneInString_width by blast
  with \<open>s \<noteq> []\<close> show "(drop (snd (DecodeRuneInString s)) s, s) \<in> measure length"
    by (cases s) auto
qed

declare runes.simps [simp del]

text \<open>\<open>unicode.IsSpace\<close>: the Latin-1 cases of the switch, then the table \<open>White_Space\<close>.\<close>

definition IsSpace :: "nat \<Rightarrow> bool" where
  "IsSpace r =
     (if r \<le> 0xFF then r \<in> {0x09, 0x0A, 0x0B, 0x0C, 0x0D, 0x20, 0x85, 0xA0}
      else r = 0x1680 \<or> (0x2000 \<le> r \<and> r \<le> 0x200A) \<or> r = 0x2028 \<or> r = 0x2029
           \<or> r = 0x202F \<or> r = 0x205F \<or> r = 0x3000)"

definition bytesOf :: "(nat \<times> string) list \<Rightarrow> string" where
  "bytesOf cs = concat (map snd cs)"

text \<open>
  \<open>strings.TrimSpace\<close>: the leading white-space runes go, then the trailing ones. (Go reads
  the trailing runes backwards with \<open>DecodeLastRuneInString\<close>; the model drops them from the
  forward decoding of what is left.)
\<close>

definition TrimSpace :: "string \<Rightarrow> string" where
  "TrimSpace s =
     bytesOf (rev (dropWhile (\<lambda>c. IsSpace (fst c))
               (rev (dropWhile (\<lambda>c. IsSpace (fst c)) (runes s)))))"

text \<open>
  \<open>strings.Fields\<close>, which is \<open>FieldsFunc(s, unicode.IsSpace)\<close>: the loop over the runes,
  with the open field (Go's \<open>start >= 0\<close>) as \<open>Some\<close> of the bytes since \<open>start\<close>.
\<close>

fun FieldsLoop :: "(nat \<times> string) list \<Rightarrow> string option \<Rightarrow> string list" where
  "FieldsLoop [] cur = (case cur of None \<Rightarrow> [] | Some f \<Rightarrow> [f])"
| "FieldsLoop (c # cs) cur =
     (if IsSpace (fst c)
      then (case cur of None \<Rightarrow> FieldsLoop cs None | Some f \<Rightarrow> f # FieldsLoop cs None)
      else FieldsLoop cs (Some (case cur of None \<Rightarrow> snd c | Some f \<Rightarrow> f @ snd c)))"

definition Fields :: "string \<Rightarrow> string list" where
  "Fields s = FieldsLoop (runes s) None"

text \<open>\<open>strings.Join\<close>.\<close>

fun Join :: "string list \<Rightarrow> string \<Rightarrow> string" where
  "Join [] sep = []"
| "Join [x] sep = x"
| "Join (x # y # ys) sep = x @ sep @ Join (y # ys) sep"

text \<open>
  \<open>strings.ReplaceAll\<close>: the occurrences of \<open>old\<close> from left to right, without overlap.
  An empty \<open>old\<close> matches before every rune and at the end.
\<close>

function ReplaceLoop :: "string \<Rightarrow> string \<Rightarrow> string \<Rightarrow> string" where
  "ReplaceLoop old new [] = []"
| "ReplaceLoop old new (x # xs) =
     (if old \<noteq> [] \<and> take (length old) (x # xs) = old
      then new @ ReplaceLoop old new (drop (length old) (x # xs))
      else x # ReplaceLoop old new xs)"
  by pat_completeness auto
termination
  by (relation "measure (\<lambda>(old, new, s). length s)") (auto simp: neq_Nil_conv)

definition ReplaceAll :: "string \<Rightarrow> string \<Rightarrow> string \<Rightarrow> string" where
  "ReplaceAll s old new =
     (if old = [] then new @ concat (map (\<lambda>c. snd c @ new) (runes s))
      else ReplaceLoop old new s)"

text \<open>\<open>strings.Split\<close>: always at least one part; an empty separator splits into runes.\<close>

function SplitLoop :: "string \<Rightarrow> string \<Rightarrow> string \<Rightarrow> string list" where
  "SplitLoop sep cur [] = [cur]"
| "SplitLoop sep cur (x # xs) =
     (if sep \<noteq> [] \<and> take (length sep) (x # xs) = sep
      then cur # SplitLoop sep [] (drop (length sep) (x # xs))
      else SplitLoop sep (cur @ [x]) xs)"
  by pat_completeness auto
termination
  by (relation "measure (\<lambda>(sep, cur, s). length s)") (auto simp: neq_Nil_conv)

definition Split :: "string \<Rightarrow> string \<Rightarrow> string list" where
  "Split s sep = (if sep = [] then map snd (runes s) else SplitLoop sep [] s)"

text \<open>\<open>strings.TrimRight\<close> with a cutset of ASCII characters, and \<open>strings.Repeat\<close>.\<close>

definition TrimRight :: "string \<Rightarrow> string \<Rightarrow> string" where
  "TrimRight s cutset = rev (dropWhile (\<lambda>c. c \<in> set cutset) (rev s))"

definition Repeat :: "string \<Rightarrow> nat \<Rightarrow> string" where
  "Repeat s n = concat (replicate n s)"

text \<open>\<open>strings.TrimSuffix\<close>.\<close>

definition TrimSuffix :: "string \<Rightarrow> string \<Rightarrow> string" where
  "TrimSuffix s suffix =
     (if length suffix \<le> length s \<and> drop (length s - length suffix) s = suffix
      then take (length s - length suffix) s else s)"

text \<open>The verb \<open>%d\<close> of package fmt on a number that is not negative.\<close>

fun digits :: "nat \<Rightarrow> nat \<Rightarrow> string" where
  "digits 0 n = []"
| "digits (Suc fuel) n =
     (if n < 10 then [char_of (48 + n)]
      else digits fuel (n div 10) @ [char_of (48 + n mod 10)])"

definition Itoa :: "nat \<Rightarrow> string" where
  "Itoa n = digits (Suc n) n"

section \<open>Regular expressions of package regexp\<close>

text \<open>
  The part of Go's regular expressions the source uses: classes of single characters,
  literals, concatenation, alternation, greedy and lazy repetition of a class with a least
  count, and capture groups. Go's matcher returns what a backtracking matcher finds first
  (leftmost-first): \<open>rmatch\<close> lists the ways to match at the start of the input in that
  order of preference, each with the input left over and the groups captured.

  The classes and literals of every pattern below are ASCII, and a class with \<open>^\<close> is
  followed by an ASCII literal; no byte of a multi-byte rune is ASCII, so matching the bytes
  gives what matching the runes gives.
\<close>

datatype re =
    Chr "char \<Rightarrow> bool"
  | Str string
  | Cat re re
  | Alt re re
  | Rep nat "char \<Rightarrow> bool"
  | RepLazy nat "char \<Rightarrow> bool"
  | Grp nat re

type_synonym caps = "(nat \<times> string) list"

fun rmatch :: "re \<Rightarrow> string \<times> caps \<Rightarrow> (string \<times> caps) list" where
  "rmatch (Chr p) (s, c) = (case s of [] \<Rightarrow> [] | x # xs \<Rightarrow> if p x then [(xs, c)] else [])"
| "rmatch (Str l) (s, c) = (if take (length l) s = l then [(drop (length l) s, c)] else [])"
| "rmatch (Cat a b) st = concat (map (rmatch b) (rmatch a st))"
| "rmatch (Alt a b) st = rmatch a st @ rmatch b st"
| "rmatch (Rep n p) (s, c) =
     map (\<lambda>i. (drop i s, c)) (rev [n ..< Suc (length (takeWhile p s))])"
| "rmatch (RepLazy n p) (s, c) =
     map (\<lambda>i. (drop i s, c)) [n ..< Suc (length (takeWhile p s))]"
| "rmatch (Grp g a) (s, c) =
     map (\<lambda>(rest, c'). (rest, (g, take (length s - length rest) s) # c')) (rmatch a (s, c))"

text \<open>The preferred match at the start of the input: its length and its groups.\<close>

definition matchAt :: "re \<Rightarrow> string \<Rightarrow> (nat \<times> caps) option" where
  "matchAt r s =
     (case rmatch r (s, []) of [] \<Rightarrow> None
      | (rest, c) # _ \<Rightarrow> Some (length s - length rest, c))"

text \<open>The text of group \<open>g\<close> (\<open>$g\<close> in a template); empty when the group took no part.\<close>

definition cap :: "caps \<Rightarrow> nat \<Rightarrow> string" where
  "cap c g = (case map_of c g of None \<Rightarrow> [] | Some t \<Rightarrow> t)"

text \<open>A replacement template: literal text and group references, as \<open>Expand\<close> reads it.\<close>

datatype tpart = Txt string | Ref nat

fun expand :: "tpart list \<Rightarrow> caps \<Rightarrow> string" where
  "expand [] c = []"
| "expand (Txt t # ps) c = t @ expand ps c"
| "expand (Ref g # ps) c = cap c g @ expand ps c"

text \<open>
  \<open>ReplaceAllStringFunc\<close>: the leftmost match, then the next one after its end. The function
  gets the matched text and its groups. No pattern of the source matches the empty string
  (each starts with a literal character), so an empty match, which Go treats apart, is
  taken as no match.
\<close>

function ReplaceAllFunc :: "re \<Rightarrow> (string \<Rightarrow> caps \<Rightarrow> string) \<Rightarrow> string \<Rightarrow> string" where
  "ReplaceAllFunc r f [] = []"
| "ReplaceAllFunc r f (x # xs) =
     (case matchAt r (x # xs) of
        None \<Rightarrow> x # ReplaceAllFunc r f xs
      | Some (n, c) \<Rightarrow>
          if n = 0 then x # ReplaceAllFunc r f xs
          else f (take n (x # xs)) c @ ReplaceAllFunc r f (drop n (x # xs)))"
  by pat_completeness auto
termination
  by (relation "measure (\<lambda>(r, f, s). length s)") auto

definition ReplaceAllString :: "re \<Rightarrow> tpart list \<Rightarrow> string \<Rightarrow> string" where
  "ReplaceAllString r t s = ReplaceAllFunc r (\<lambda>m c. expand t c) s"

text \<open>\<open>FindAllString\<close> with \<open>n = -1\<close>: the matched texts, left to right.\<close>

function FindAllString :: "re \<Rightarrow> string \<Rightarrow> string list" where
  "FindAllString r [] = []"
| "FindAllString r (x # xs) =
     (case matchAt r (x # xs) of
        None \<Rightarrow> FindAllString r xs
      | Some (n, c) \<Rightarrow>
          if n = 0 then FindAllString r xs
          else take n (x # xs) # FindAllString r (drop n (x # xs)))"
  by pat_completeness auto
termination
  by (relation "measure (\<lambda>(r, s). length s)") auto

text \<open>\<open>FindStringSubmatch\<close>: the groups of the leftmost match, if there is one.\<close>

fun FindStringSubmatch :: "re \<Rightarrow> string \<Rightarrow> caps option" where
  "FindStringSubmatch r [] = None"
| "FindStringSubmatch r (x # xs) =
     (case matchAt r (x # xs) of
        None \<Rightarrow> FindStringSubmatch r xs
      | Some (n, c) \<Rightarrow> Some c)"

text \<open>The classes \<open>\s\<close> (Perl's: tab, newline, form feed, carriage return, space) and \<open>\d\<close>.\<close>

definition NL :: char where
  "NL = CHR 0x0A"

definition CR :: char where
  "CR = CHR 0x0D"

definition cls_s :: "char \<Rightarrow> bool" where
  "cls_s x = (x \<in> {CHR 0x09, CHR 0x0A, CHR 0x0C, CHR 0x0D, CHR 0x20})"

definition cls_d :: "char \<Rightarrow> bool" where
  "cls_d x = (48 \<le> (of_char x :: nat) \<and> (of_char x :: nat) \<le> 57)"

definition chr_is :: "char \<Rightarrow> char \<Rightarrow> bool" where
  "chr_is a x = (x = a)"

definition chr_not :: "char \<Rightarrow> char \<Rightarrow> bool" where
  "chr_not a x = (x \<noteq> a)"

section \<open>The post-processing of the Markdown text\<close>

text \<open>The pattern \<^verbatim>\<open>\n{3,}\<close> of \<open>postprocessMarkdown\<close>.\<close>

definition newlines3 :: re where
  "newlines3 = Rep 3 (chr_is NL)"

text \<open>\<open>listMarker\<close>: \<^verbatim>\<open>(?:[-*+]\s|\d+\.\s)\<close>.\<close>

definition listMarker :: re where
  "listMarker =
     Alt (Cat (Chr (\<lambda>x. x \<in> {CHR ''-'', CHR ''*'', CHR ''+''})) (Chr cls_s))
         (Cat (Rep 1 cls_d) (Cat (Chr (chr_is CHR ''.'')) (Chr cls_s)))"

text \<open>
  The pattern of \<open>fixNestedListSpacing\<close>:
  \<^verbatim>\<open>(\n\s*M[^\n]*)\n\s*\n(\s{2,}M)\<close> with \<open>M\<close> the list marker.
\<close>

definition nestedPattern :: re where
  "nestedPattern =
     Cat (Grp 1 (Cat (Chr (chr_is NL)) (Cat (Rep 0 cls_s) (Cat listMarker (Rep 0 (chr_not NL))))))
    (Cat (Chr (chr_is NL))
    (Cat (Rep 0 cls_s)
    (Cat (Chr (chr_is NL))
         (Grp 2 (Cat (Rep 2 cls_s) listMarker)))))"

text \<open>The template \<^verbatim>\<open>$1\n$2\<close> (the Go literal is interpreted: a newline between the groups).\<close>

definition nestedTemplate :: "tpart list" where
  "nestedTemplate = [Ref 1, Txt [NL], Ref 2]"

text \<open>
  The pattern of \<open>fixMarkdownLinks\<close>:
  \<^verbatim>\<open>\[([^\]]+)\]\(/wiki/spaces/([^/]+)/pages/(\d+)/[^)]+\)\<close>
  and its template \<^verbatim>\<open>[$1](confluence://pageId/$3)\<close>.
\<close>

definition confLinkRegex :: re where
  "confLinkRegex =
     Cat (Chr (chr_is CHR ''[''))
    (Cat (Grp 1 (Rep 1 (chr_not CHR '']'')))
    (Cat (Str ''](/wiki/spaces/'')
    (Cat (Grp 2 (Rep 1 (chr_not CHR ''/'')))
    (Cat (Str ''/pages/'')
    (Cat (Grp 3 (Rep 1 cls_d))
    (Cat (Chr (chr_is CHR ''/''))
    (Cat (Rep 1 (chr_not CHR '')''))
         (Chr (chr_is CHR '')'')))))))))"

definition confLinkTemplate :: "tpart list" where
  "confLinkTemplate = [Txt ''['', Ref 1, Txt ''](confluence://pageId/'', Ref 3, Txt '')'']"

definition fixMarkdownLinks :: "string \<Rightarrow> string" where
  "fixMarkdownLinks markdown = ReplaceAllString confLinkRegex confLinkTemplate markdown"

text \<open>One pass of the rewrite of \<open>fixNestedListSpacing\<close>.\<close>

definition nestedPass :: "string \<Rightarrow> string" where
  "nestedPass markdown = ReplaceAllString nestedPattern nestedTemplate markdown"

subsection \<open>What a match consumes and captures\<close>

lemma rmatch_length:
  "(rest, c') \<in> set (rmatch r (s, c)) \<Longrightarrow> length rest \<le> length s"
proof (induction r arbitrary: s c rest c')
  case (Chr p)
  then show ?case by (cases s) (auto split: if_splits)
next
  case (Str l)
  then show ?case by (auto split: if_splits)
next
  case (Cat a b)
  from Cat.prems obtain m cm where m: "(m, cm) \<in> set (rmatch a (s, c))"
    and r: "(rest, c') \<in> set (rmatch b (m, cm))"
    by auto
  from Cat.IH(1) [OF m] Cat.IH(2) [OF r] show ?case by simp
next
  case (Alt a b)
  then show ?case by auto
next
  case (Rep n p)
  then show ?case by auto
next
  case (RepLazy n p)
  then show ?case by auto
next
  case (Grp g a)
  then show ?case by auto
qed

lemma rmatch_Chr:
  "(rest, c') \<in> set (rmatch (Chr p) (s, c)) \<Longrightarrow> c' = c \<and> length s = Suc (length rest)"
  by (cases s) (auto split: if_splits)

lemma rmatch_Rep:
  "(rest, c') \<in> set (rmatch (Rep n p) (s, c)) \<Longrightarrow> c' = c \<and> length rest \<le> length s"
  by auto

lemma rmatch_Cat:
  "(rest, c') \<in> set (rmatch (Cat a b) st) \<Longrightarrow>
     \<exists>m cm. (m, cm) \<in> set (rmatch a st) \<and> (rest, c') \<in> set (rmatch b (m, cm))"
  by auto

lemma rmatch_Grp:
  "(rest, c') \<in> set (rmatch (Grp g a) (s, c)) \<Longrightarrow>
     \<exists>d. (rest, d) \<in> set (rmatch a (s, c)) \<and> c' = (g, take (length s - length rest) s) # d"
  by auto

text \<open>The groups a pattern can set, for the proofs about what a match captures.\<close>

fun groups :: "re \<Rightarrow> nat set" where
  "groups (Cat a b) = groups a \<union> groups b"
| "groups (Alt a b) = groups a \<union> groups b"
| "groups (Grp g a) = insert g (groups a)"
| "groups r = {}"

lemma rmatch_caps:
  "(rest, c') \<in> set (rmatch r (s, c)) \<Longrightarrow>
     \<exists>pre. c' = pre @ c \<and> fst ` set pre \<subseteq> groups r"
proof (induction r arbitrary: s c rest c')
  case (Chr p)
  then show ?case by (cases s) (auto split: if_splits)
next
  case (Str l)
  then show ?case by (auto split: if_splits)
next
  case (Cat a b)
  from Cat.prems obtain m cm where m: "(m, cm) \<in> set (rmatch a (s, c))"
    and r: "(rest, c') \<in> set (rmatch b (m, cm))"
    by auto
  from Cat.IH(1) [OF m] obtain p1 where p1: "cm = p1 @ c" "fst ` set p1 \<subseteq> groups a"
    by blast
  from Cat.IH(2) [OF r] obtain p2 where p2: "c' = p2 @ cm" "fst ` set p2 \<subseteq> groups b"
    by blast
  from p1 p2 have "c' = (p2 @ p1) @ c \<and> fst ` set (p2 @ p1) \<subseteq> groups (Cat a b)"
    by auto
  then show ?case by blast
next
  case (Alt a b)
  from Alt.prems have "(rest, c') \<in> set (rmatch a (s, c)) \<or> (rest, c') \<in> set (rmatch b (s, c))"
    by auto
  with Alt.IH show ?case by (metis groups.simps(2) le_supI1 le_supI2)
next
  case (Rep n p)
  then show ?case by auto
next
  case (RepLazy n p)
  then show ?case by auto
next
  case (Grp g a)
  from Grp.prems obtain d where d: "(rest, d) \<in> set (rmatch a (s, c))"
    and c': "c' = (g, take (length s - length rest) s) # d"
    by auto
  from Grp.IH [OF d] obtain p where p: "d = p @ c" "fst ` set p \<subseteq> groups a"
    by blast
  from c' p have "c' = ((g, take (length s - length rest) s) # p) @ c \<and>
      fst ` set ((g, take (length s - length rest) s) # p) \<subseteq> groups (Grp g a)"
    by auto
  then show ?case by blast
qed

lemma rmatch_nogroups:
  "(rest, c') \<in> set (rmatch r (s, c)) \<Longrightarrow> groups r = {} \<Longrightarrow> c' = c"
  using rmatch_caps by fastforce

lemma nestedPattern_shrinks:
  assumes "(rest, c') \<in> set (rmatch nestedPattern (s, []))"
  shows "length (expand nestedTemplate c') < length s - length rest"
proof -
  from assms [unfolded nestedPattern_def] obtain s1 c1 s2 c2 s3 c3 s4 c4
    where a1: "(s1, c1) \<in> set (rmatch (Grp 1 (Cat (Chr (chr_is NL)) (Cat (Rep 0 cls_s)
                  (Cat listMarker (Rep 0 (chr_not NL)))))) (s, []))"
      and a2: "(s2, c2) \<in> set (rmatch (Chr (chr_is NL)) (s1, c1))"
      and a3: "(s3, c3) \<in> set (rmatch (Rep 0 cls_s) (s2, c2))"
      and a4: "(s4, c4) \<in> set (rmatch (Chr (chr_is NL)) (s3, c3))"
      and a5: "(rest, c') \<in> set (rmatch (Grp 2 (Cat (Rep 2 cls_s) listMarker)) (s4, c4))"
    by (blast dest: rmatch_Cat)
  from rmatch_Grp [OF a1] obtain d1 where c1: "c1 = (1, take (length s - length s1) s) # d1"
    and l1: "length s1 \<le> length s"
    using rmatch_length by blast
  from rmatch_Chr [OF a2] have c2: "c2 = c1" and l2: "length s1 = Suc (length s2)"
    by simp_all
  from rmatch_Rep [OF a3] have c3: "c3 = c2" and l3: "length s3 \<le> length s2"
    by simp_all
  from rmatch_Chr [OF a4] have c4: "c4 = c3" and l4: "length s3 = Suc (length s4)"
    by simp_all
  from rmatch_Grp [OF a5] obtain d2 where c': "c' = (2, take (length s4 - length rest) s4) # d2"
    and l5: "length rest \<le> length s4"
    and a6: "(rest, d2) \<in> set (rmatch (Cat (Rep 2 cls_s) listMarker) (s4, c4))"
    using rmatch_length by blast
  from rmatch_nogroups [OF a6] have d2: "d2 = c4"
    by (simp add: listMarker_def)
  have "expand nestedTemplate c' =
          take (length s - length s1) s @ [NL] @ take (length s4 - length rest) s4"
    by (simp add: nestedTemplate_def cap_def c' c1 c2 c3 c4 d2)
  then show ?thesis
    using l1 l2 l3 l4 l5 by simp
qed

lemma ReplaceAllFunc_length:
  "(\<forall>s n c. matchAt r s = Some (n, c) \<longrightarrow> 0 < n \<longrightarrow> length (f (take n s) c) < n) \<Longrightarrow>
   length (ReplaceAllFunc r f s) \<le> length s \<and>
     (ReplaceAllFunc r f s \<noteq> s \<longrightarrow> length (ReplaceAllFunc r f s) < length s)"
proof (induction r f s rule: ReplaceAllFunc.induct)
  case (1 r f)
  show ?case by simp
next
  case (2 r f x xs)
  note shrink = "2.prems"
  show ?case
  proof (cases "matchAt r (x # xs)")
    case None
    with "2.IH"(1) [OF None shrink] show ?thesis by auto
  next
    case (Some nc)
    obtain n c where nc: "nc = (n, c)" by (cases nc)
    show ?thesis
    proof (cases "n = 0")
      case True
      with Some nc "2.IH"(2) [OF Some [unfolded nc] refl True shrink] show ?thesis by auto
    next
      case False
      have n: "n \<le> length (x # xs)"
        using Some nc by (auto simp: matchAt_def split: list.splits)
      from False have "0 < n" by simp
      with shrink Some nc
      have "length (f (take n (x # xs)) c) < n" by blast
      moreover from "2.IH"(3) [OF Some [unfolded nc] refl False shrink]
      have "length (ReplaceAllFunc r f (drop n (x # xs))) \<le> length (x # xs) - n"
        by simp
      ultimately have "length (f (take n (x # xs)) c)
          + length (ReplaceAllFunc r f (drop n (x # xs))) < length (x # xs)"
        using n by arith
      then show ?thesis
        using Some nc False by (simp del: drop_Suc_Cons take_Suc_Cons)
    qed
  qed
qed

lemma nestedPass_length:
  "nestedPass s \<noteq> s \<Longrightarrow> length (nestedPass s) < length s"
proof -
  have "\<And>s n c. matchAt nestedPattern s = Some (n, c) \<Longrightarrow> 0 < n \<Longrightarrow>
          length (expand nestedTemplate c) < n"
  proof -
    fix s n c
    assume m: "matchAt nestedPattern s = Some (n, c)"
    then obtain rest where "(rest, c) \<in> set (rmatch nestedPattern (s, []))"
      and "n = length s - length rest"
      by (auto simp: matchAt_def split: list.splits)
    with nestedPattern_shrinks show "length (expand nestedTemplate c) < n" by blast
  qed
  then have "\<forall>s n c. matchAt nestedPattern s = Some (n, c) \<longrightarrow> 0 < n \<longrightarrow>
          length ((\<lambda>m c. expand nestedTemplate c) (take n s) c) < n"
    by blast
  from ReplaceAllFunc_length [OF this, of s]
  show "nestedPass s \<noteq> s \<Longrightarrow> length (nestedPass s) < length s"
    by (simp add: nestedPass_def ReplaceAllString_def)
qed

text \<open>
  \<open>fixNestedListSpacing\<close>: the pass is repeated while it changes the text. Every
  replacement is shorter than the text it replaces, which is why the recursion ends.
\<close>

function fixNestedListSpacing :: "string \<Rightarrow> string" where
  "fixNestedListSpacing markdown =
     (if nestedPass markdown \<noteq> markdown
      then fixNestedListSpacing (nestedPass markdown)
      else nestedPass markdown)"
  by pat_completeness auto
termination
  by (relation "measure length") (auto simp: nestedPass_length)

declare fixNestedListSpacing.simps [simp del]

text \<open>\<open>postprocessMarkdown\<close>.\<close>

definition postprocessMarkdown :: "string \<Rightarrow> string" where
  "postprocessMarkdown markdown =
     TrimSpace (fixMarkdownLinks (fixNestedListSpacing
       (ReplaceAllString newlines3 [Txt [NL, NL]] markdown)))"

text \<open>
  \<open>preprocessCDATA\<close>, with the pattern \<^verbatim>\<open><!\[CDATA\[([\s\S]*?)\]\]>\<close>: the text of a
  CDATA section is escaped and wrapped in a \<open>pre\<close> element. The function matches the pattern
  again on the matched text to read the group, as the source does.
\<close>

definition cdataRegex :: re where
  "cdataRegex = Cat (Str ''<![CDATA['') (Cat (Grp 1 (RepLazy 0 (\<lambda>x. True))) (Str '']]>''))"

definition preprocessCDATA :: "string \<Rightarrow> string" where
  "preprocessCDATA html =
     ReplaceAllFunc cdataRegex
       (\<lambda>match c.
          case FindStringSubmatch cdataRegex match of
            None \<Rightarrow> match
          | Some submatch \<Rightarrow>
              ''<pre data-cdata='' @ [CHR 0x27] @ ''true'' @ [CHR 0x27] @ ''>''
                @ ReplaceAll (ReplaceAll (ReplaceAll (cap submatch 1)
                     ''&'' ''&amp;'') ''<'' ''&lt;'') ''>'' ''&gt;''
                @ ''</pre>'')
       html"

section \<open>The node tree and the libraries the plugin calls\<close>

text \<open>
  A node of package \<open>golang.org/x/net/html\<close>: its type, its data (the tag name of an
  element, the text of a text node), its attributes and its children in order. A child has
  a next sibling when it is not the last of the list.
\<close>

datatype NodeType =
  ErrorNode | TextNode | DocumentNode | ElementNode | CommentNode | DoctypeNode | RawNode

datatype Attribute = Attribute (Key: string) (Val: string)

datatype Node = Node (Type: NodeType) (Data: string) (Attr: "Attribute list") (Children: "Node list")

datatype RenderStatus = RenderTryNext | RenderSuccess

text \<open>
  What the plugin calls and this repository does not define, taken as parameters: the
  converter's \<open>ctx.RenderNodes\<close> (the text it writes for a node), \<open>html.Render\<close>, the
  queries of goquery (a selection is a list of nodes), \<open>slug.Make\<close>, \<open>strings.ToLower\<close>,
  and the functions \<open>extractLanguageParameter\<close> and \<open>extractCodeContent\<close> of the plugin
  package, whose file is not part of the sources at hand.
\<close>

record lib =
  RenderNodes :: "Node \<Rightarrow> string"
  Render :: "Node \<Rightarrow> string"
  NewDocumentFromReader :: "string \<Rightarrow> string + Node list"
  Find :: "Node list \<Rightarrow> string \<Rightarrow> Node list"
  Text :: "Node list \<Rightarrow> string"
  AttrOf :: "Node list \<Rightarrow> string \<Rightarrow> string option"
  Html :: "Node list \<Rightarrow> string"
  Make :: "string \<Rightarrow> string"
  ToLower :: "string \<Rightarrow> string"
  extractLanguageParameter :: "string \<Rightarrow> string"
  extractCodeContent :: "string \<Rightarrow> string"

text \<open>The fields of \<open>ConfluencePlugin\<close> the handlers read.\<close>

record ConfluencePlugin =
  imageFolder :: string
  baseURL :: string
  userCache :: "string \<rightharpoonup> string"

text \<open>
  The loop \<open>for _, attr := range n.Attr { if attr.Key == key { v = attr.Val; break } }\<close>:
  the value of the first attribute with the key, the empty string when there is none.
\<close>

fun attrVal :: "Attribute list \<Rightarrow> string \<Rightarrow> string" where
  "attrVal [] key = []"
| "attrVal (attr # as) key = (if Key attr = key then Val attr else attrVal as key)"

text \<open>The first attribute with the key and a value that is not empty.\<close>

fun attrNonEmpty :: "Attribute list \<Rightarrow> string \<Rightarrow> string option" where
  "attrNonEmpty [] key = None"
| "attrNonEmpty (attr # as) key =
     (if Key attr = key \<and> Val attr \<noteq> [] then Some (Val attr) else attrNonEmpty as key)"

text \<open>\<open>strings.Replace\<close> with \<open>n = 1\<close> and an \<open>old\<close> that is not empty.\<close>

fun ReplaceFirst :: "string \<Rightarrow> string \<Rightarrow> string \<Rightarrow> string" where
  "ReplaceFirst [] old new = []"
| "ReplaceFirst (x # xs) old new =
     (if take (length old) (x # xs) = old then new @ drop (length old) (x # xs)
      else x # ReplaceFirst xs old new)"

definition BS :: char where
  "BS = CHR 0x5C"

section \<open>The handlers of the plugin\<close>

subsection \<open>Cell classification\<close>

text \<open>\<open>containsBrTags\<close>: a \<open>br\<close> element at the node or below it.\<close>

fun containsBrTags :: "Node \<Rightarrow> bool"
  and containsBrTagsIn :: "Node list \<Rightarrow> bool" where
  "containsBrTags (Node t d a cs) =
     (if t = ElementNode \<and> d = ''br'' then True else containsBrTagsIn cs)"
| "containsBrTagsIn [] = False"
| "containsBrTagsIn (child # rest) =
     (if containsBrTags child then True else containsBrTagsIn rest)"

definition alwaysComplex :: "string list" where
  "alwaysComplex = [''ul'', ''ol'', ''div'', ''blockquote'', ''pre'', ''table'', ''ac:task-list'']"

definition blockTags :: "string list" where
  "blockTags = [''p'', ''h1'', ''h2'', ''h3'', ''h4'', ''h5'', ''h6'']"

text \<open>
  The loop of \<open>cellHasComplexContent\<close> over the children of the cell, with
  \<open>blockElementCount\<close> as it stands before the child.
\<close>

fun cellLoop :: "nat \<Rightarrow> Node list \<Rightarrow> bool" where
  "cellLoop blockElementCount [] = False"
| "cellLoop blockElementCount (child # rest) =
     (if Type child = ElementNode then
        (if Data child \<in> set alwaysComplex then True
         else if Data child \<in> set blockTags then
           (if blockElementCount + 1 > 1 then True
            else if containsBrTags child then True
            else cellLoop (blockElementCount + 1) rest)
         else if Data child = ''br'' then True
         else cellLoop blockElementCount rest)
      else cellLoop blockElementCount rest)"

definition cellHasComplexContent :: "Node \<Rightarrow> bool" where
  "cellHasComplexContent cell = cellLoop 0 (Children cell)"

subsection \<open>Inline handlers\<close>

text \<open>Every handler returns what it writes and its status.\<close>

definition handleEmoticon :: "Node \<Rightarrow> string \<times> RenderStatus" where
  "handleEmoticon n =
     (case attrNonEmpty (Attr n) ''ac:emoji-fallback'' of
        Some v \<Rightarrow> (v @ '' '', RenderTryNext)
      | None \<Rightarrow>
     (case attrNonEmpty (Attr n) ''ac:emoji-shortname'' of
        Some v \<Rightarrow> (v @ '' '', RenderTryNext)
      | None \<Rightarrow>
     (case attrNonEmpty (Attr n) ''ac:name'' of
        Some v \<Rightarrow> ('':'' @ v @ '':'', RenderTryNext)
      | None \<Rightarrow> ('':emoji: '', RenderTryNext))))"

definition handleTime :: "Node \<Rightarrow> string \<times> RenderStatus" where
  "handleTime n =
     (let datetime = attrVal (Attr n) ''datetime''
      in (if datetime \<noteq> [] then datetime @ '' '' else [], RenderTryNext))"

definition handlePlaceholder :: "Node \<Rightarrow> string \<times> RenderStatus" where
  "handlePlaceholder n =
     (let text = (case Children n of
                    [] \<Rightarrow> []
                  | first # _ \<Rightarrow> if Type first = TextNode then TrimSpace (Data first) else [])
      in (if text \<noteq> [] then ''<!-- '' @ text @ '' -->'' else [], RenderSuccess))"

text \<open>\<open>handleAnchorLink\<close>: a link with an \<open>ac:anchor\<close> attribute and a link text.\<close>

definition handleAnchorLink :: "lib \<Rightarrow> Node \<Rightarrow> string \<times> RenderStatus" where
  "handleAnchorLink L n =
     (case NewDocumentFromReader L (Render L n) of
        Inl err \<Rightarrow> ([], RenderTryNext)
      | Inr doc \<Rightarrow>
          let selection = Find L doc (''ac'' @ [BS] @ '':link'') in
          (case AttrOf L selection ''ac:anchor'' of
             Some anchor \<Rightarrow>
               let linkText =
                 TrimSpace (Text L (Find L selection (''ac'' @ [BS] @ '':plain-text-link-body'')))
               in if linkText = [] then ([], RenderTryNext)
                  else (''['' @ linkText @ ''](#'' @ Make L anchor @ '')'', RenderSuccess)
           | None \<Rightarrow> ([], RenderTryNext)))"

text \<open>
  The loop of \<open>handleLink\<close> over the children: the first \<open>ri:user\<close> element whose
  \<open>ri:account-id\<close> is not empty is written as a mention.
\<close>

fun userLoop :: "ConfluencePlugin \<Rightarrow> Node list \<Rightarrow> string \<times> RenderStatus" where
  "userLoop P [] = ([], RenderTryNext)"
| "userLoop P (child # rest) =
     (if Type child = ElementNode \<and> Data child = ''ri:user'' then
        (let accountID = attrVal (Attr child) ''ri:account-id'' in
         if accountID \<noteq> [] then
           (case userCache P accountID of
              Some displayName \<Rightarrow> ('' @'' @ displayName @ '' '', RenderTryNext)
            | None \<Rightarrow> ('' @user('' @ accountID @ '') '', RenderTryNext))
         else userLoop P rest)
      else userLoop P rest)"

definition handleLink :: "ConfluencePlugin \<Rightarrow> lib \<Rightarrow> Node \<Rightarrow> string \<times> RenderStatus" where
  "handleLink P L n =
     (if snd (handleAnchorLink L n) \<noteq> RenderTryNext
      then (fst (handleAnchorLink L n), RenderSuccess)
      else (fst (handleAnchorLink L n) @ fst (userLoop P (Children n)),
            snd (userLoop P (Children n))))"

subsection \<open>Macros\<close>

text \<open>\<open>findRichTextBodyNode\<close>: the first \<open>ac:rich-text-body\<close> element, depth first.\<close>

fun findRichTextBodyNode :: "Node \<Rightarrow> Node option"
  and findRichTextBodyIn :: "Node list \<Rightarrow> Node option" where
  "findRichTextBodyNode (Node t d a cs) =
     (if t = ElementNode \<and> d = ''ac:rich-text-body'' then Some (Node t d a cs)
      else findRichTextBodyIn cs)"
| "findRichTextBodyIn [] = None"
| "findRichTextBodyIn (child # rest) =
     (case findRichTextBodyNode child of
        Some found \<Rightarrow> Some found
      | None \<Rightarrow> findRichTextBodyIn rest)"

text \<open>The loop of \<open>convertNestedHTML\<close> over the children of the rich body.\<close>

fun convertChildren :: "lib \<Rightarrow> Node list \<Rightarrow> string" where
  "convertChildren L [] = []"
| "convertChildren L (child # rest) =
     (if Type child = TextNode then
        (let text = TrimSpace (Data child) in (if text \<noteq> [] then text else []))
          @ convertChildren L rest
      else if Type child = ElementNode then
        (if Data child = ''p'' \<and> Children child = [] then convertChildren L rest
         else RenderNodes L child @ convertChildren L rest)
      else convertChildren L rest)"

definition convertNestedHTML :: "lib \<Rightarrow> Node \<Rightarrow> string" where
  "convertNestedHTML L n =
     (case findRichTextBodyNode n of
        None \<Rightarrow> []
      | Some richTextBody \<Rightarrow> TrimSpace (convertChildren L (Children richTextBody)))"

definition handleBlockquoteMacro :: "lib \<Rightarrow> Node \<Rightarrow> string \<Rightarrow> string \<Rightarrow> string" where
  "handleBlockquoteMacro L n emoji label =
     (let content = convertNestedHTML L n;
          prefix = emoji @ '' **'' @ label @ '':**''
      in if content = [] then ''> '' @ prefix
         else let lines = Split content [NL] in
           if length lines > 1 then
             TrimRight
               (''> '' @ prefix @ [NL]
                  @ concat (map (\<lambda>line. if TrimSpace line \<noteq> [] then ''> '' @ line @ [NL]
                                          else ''>'' @ [NL]) lines))
               [NL]
           else ''> '' @ prefix @ '' '' @ content)"

definition First :: "Node list \<Rightarrow> Node list" where
  "First sel = take 1 sel"

definition plainTextBody :: string where
  "plainTextBody = ''ac'' @ [BS] @ '':plain-text-body''"

definition fence :: string where
  "fence = [CHR 0x60, CHR 0x60, CHR 0x60]"

definition extractPlainTextBodyContent :: "lib \<Rightarrow> Node list \<Rightarrow> string \<Rightarrow> string" where
  "extractPlainTextBodyContent L selection rawHTML =
     (let body = First (Find L selection plainTextBody) in
      if length body = 0 then extractCodeContent L rawHTML
      else let preTag = First (Find L body (''pre[data-cdata='' @ [CHR 0x27] @ ''true''
                                             @ [CHR 0x27] @ '']''))
        in if length preTag > 0 then
             TrimSpace (ReplaceAll (ReplaceAll (ReplaceAll (Text L preTag)
               ''&lt;'' ''<'') ''&gt;'' ''>'') ''&amp;'' ''&'')
           else extractCodeContent L rawHTML)"

definition extractMacroParameter :: "lib \<Rightarrow> Node list \<Rightarrow> string \<Rightarrow> string" where
  "extractMacroParameter L selection name =
     (let param = First (Find L selection
                    (''ac'' @ [BS] @ '':parameter[ac'' @ [BS] @ '':name='' @ [CHR 0x27] @ name
                       @ [CHR 0x27] @ '']''))
      in if length param = 0 then [] else TrimSpace (Text L param))"

definition renderError :: "string \<Rightarrow> string" where
  "renderError err = ''<!-- Error rendering macro: '' @ err @ '' -->''"

definition handleCodeMacro :: "lib \<Rightarrow> Node \<Rightarrow> string" where
  "handleCodeMacro L n =
     (case NewDocumentFromReader L (Render L n) of
        Inl err \<Rightarrow> renderError err
      | Inr selection \<Rightarrow>
          let rawHTML = Html L selection;
              language = extractLanguageParameter L rawHTML;
              code0 = extractPlainTextBodyContent L selection rawHTML;
              code = (if code0 = [] then extractCodeContent L rawHTML else code0)
          in if language \<noteq> [] then fence @ language @ [NL] @ code @ [NL] @ fence @ [NL]
             else fence @ [NL] @ code @ [NL] @ fence @ [NL])"

definition handleJiraMacro :: "ConfluencePlugin \<Rightarrow> lib \<Rightarrow> Node \<Rightarrow> string" where
  "handleJiraMacro P L n =
     (case NewDocumentFromReader L (Render L n) of
        Inl err \<Rightarrow> renderError err
      | Inr selection \<Rightarrow>
          let jira = extractMacroParameter L selection ''key'' in
          if baseURL P \<noteq> [] then
            ''['' @ jira @ ''](''
              @ ReplaceFirst (baseURL P) ''confluence'' ''jira'' @ ''/browse/'' @ jira @ '')''
          else jira)"

definition handleMermaidMacro :: "lib \<Rightarrow> Node \<Rightarrow> string" where
  "handleMermaidMacro L n =
     (case NewDocumentFromReader L (Render L n) of
        Inl err \<Rightarrow> renderError err
      | Inr selection \<Rightarrow>
          let diagram = TrimSpace (Text L (First (Find L selection plainTextBody))) in
          if diagram = [] then ''<!-- Empty mermaid macro -->''
          else fence @ ''mermaid'' @ [NL] @ diagram @ [NL] @ fence @ [NL])"

definition handleViewFileMacro :: "ConfluencePlugin \<Rightarrow> lib \<Rightarrow> Node \<Rightarrow> string" where
  "handleViewFileMacro P L n =
     (case NewDocumentFromReader L (Render L n) of
        Inl err \<Rightarrow> renderError err
      | Inr doc \<Rightarrow>
          (case AttrOf L (Find L doc (''ri'' @ [BS] @ '':attachment'')) ''ri:filename'' of
             Some filename \<Rightarrow> ''['' @ filename @ '']('' @ imageFolder P @ ''/'' @ filename @ '')''
           | None \<Rightarrow> ''<!-- file attachment not found -->''))"

definition handleAnchorMacro :: "lib \<Rightarrow> Node \<Rightarrow> string" where
  "handleAnchorMacro L n =
     (case NewDocumentFromReader L (Render L n) of
        Inl err \<Rightarrow> renderError err
      | Inr doc \<Rightarrow>
          let anchor = Text L doc in
          if anchor = [] then ''<!-- anchor macro has no anchor -->''
          else ''<a name='' @ Make L anchor @ ''></a>'')"

text \<open>\<open>handleTocMacro\<close>: the text and \<open>tryNext\<close>.\<close>

definition handleTocMacro :: "Node \<Rightarrow> string \<times> bool" where
  "handleTocMacro n =
     (let hasParameters =
            (\<exists>child \<in> set (Children n). Type child = ElementNode \<and> Data child = ''ac:parameter'')
      in if \<not> hasParameters then (''[toc]'', True) else (''[toc]'', False))"

definition handleExpandMacro :: "lib \<Rightarrow> Node \<Rightarrow> string" where
  "handleExpandMacro L n =
     (let content = convertNestedHTML L n in
      if content \<noteq> [] then content @ [NL, NL] else [])"

definition handleDetailsMacro :: "lib \<Rightarrow> Node \<Rightarrow> string" where
  "handleDetailsMacro L n =
     (let content = convertNestedHTML L n in
      if content = [] then [] else content @ [NL, NL])"

text \<open>The loop of \<open>handleStatusMacro\<close> over the parameters: \<open>(title, colour)\<close>.\<close>

fun statusParams :: "Node list \<Rightarrow> string \<times> string \<Rightarrow> string \<times> string" where
  "statusParams [] tc = tc"
| "statusParams (child # rest) (title, colour) =
     (if Type child = ElementNode \<and> Data child = ''ac:parameter'' then
        (let paramName = attrVal (Attr child) ''ac:name'' in
         if paramName = ''title'' \<and> Children child \<noteq> []
           then statusParams rest (Data (hd (Children child)), colour)
         else if paramName = ''colour'' \<and> Children child \<noteq> []
           then statusParams rest (title, Data (hd (Children child)))
         else statusParams rest (title, colour))
      else statusParams rest (title, colour))"

text \<open>
  The string literals of the source that are not ASCII, byte for byte as the file
  \<open>confluence.go\<close> has them.
\<close>

definition emojiInfo :: string where
  "emojiInfo = [CHR 0xE2, CHR 0x80, CHR 0x9A, CHR 0xC3, CHR 0x91, CHR 0xCF, CHR 0x80,
                CHR 0xC3, CHR 0x94, CHR 0xE2, CHR 0x88, CHR 0x8F, CHR 0xC3, CHR 0xA8]"

definition emojiWarning :: string where
  "emojiWarning = [CHR 0xE2, CHR 0x80, CHR 0x9A, CHR 0xC3, CHR 0xB6, CHR 0xE2, CHR 0x80,
                   CHR 0xA0, CHR 0xC3, CHR 0x94, CHR 0xE2, CHR 0x88, CHR 0x8F, CHR 0xC3, CHR 0xA8]"

definition emojiNote :: string where
  "emojiNote = [CHR 0xEF, CHR 0xA3, CHR 0xBF, CHR 0xC3, CHR 0xBC, CHR 0xC3, CHR 0xAC,
                CHR 0xC3, CHR 0xB9]"

definition emojiTip :: string where
  "emojiTip = [CHR 0xEF, CHR 0xA3, CHR 0xBF, CHR 0xC3, CHR 0xBC, CHR 0xC3, CHR 0xAD,
               CHR 0xC2, CHR 0xB0]"

definition emojiRed :: string where
  "emojiRed = [CHR 0xEF, CHR 0xA3, CHR 0xBF, CHR 0xC3, CHR 0xBC, CHR 0xC3, CHR 0xAE,
               CHR 0xC2, CHR 0xA5]"

definition emojiYellow :: string where
  "emojiYellow = [CHR 0xEF, CHR 0xA3, CHR 0xBF, CHR 0xC3, CHR 0xBC, CHR 0xC3, CHR 0xBC,
                  CHR 0xC2, CHR 0xB0]"

definition emojiGreen :: string where
  "emojiGreen = [CHR 0xEF, CHR 0xA3, CHR 0xBF, CHR 0xC3, CHR 0xBC, CHR 0xC3, CHR 0xBC,
                 CHR 0xC2, CHR 0xA2]"

definition emojiBlue :: string where
  "emojiBlue = [CHR 0xEF, CHR 0xA3, CHR 0xBF, CHR 0xC3, CHR 0xBC, CHR 0xC3, CHR 0xAE,
                CHR 0xC2, CHR 0xB5]"

definition emojiGrey :: string where
  "emojiGrey = [CHR 0xE2, CHR 0x80, CHR 0x9A, CHR 0xC3, CHR 0xB6, CHR 0xE2, CHR 0x84, CHR 0xA2]"

definition bulletMarker :: string where
  "bulletMarker = [CHR 0xE2, CHR 0x80, CHR 0x9A, CHR 0xC3, CHR 0x84, CHR 0xC2, CHR 0xA2, CHR 0x20]"

definition checkedBox :: string where
  "checkedBox = [CHR 0xE2, CHR 0x80, CHR 0x9A, CHR 0xC3, CHR 0xB2, CHR 0xC3, CHR 0xAB, CHR 0x20]"

definition uncheckedBox :: string where
  "uncheckedBox = [CHR 0xE2, CHR 0x80, CHR 0x9A, CHR 0xC3, CHR 0xB2, CHR 0xC3, CHR 0xAA, CHR 0x20]"

definition handleStatusMacro :: "lib \<Rightarrow> Node \<Rightarrow> string" where
  "handleStatusMacro L n =
     (let (title, colour) = statusParams (Children n) ([], []);
          c = ToLower L colour;
          emoji = (if c = ''red'' then emojiRed
                   else if c = ''yellow'' then emojiYellow
                   else if c = ''green'' then emojiGreen
                   else if c = ''blue'' then emojiBlue
                   else if c = ''grey'' \<or> c = ''gray'' then emojiGrey
                   else [])
      in if title \<noteq> [] then
           (if emoji \<noteq> [] then emoji @ '' **'' @ title @ ''**''
            else ''**['' @ title @ '']**'')
         else [])"

text \<open>The name \<open>handleMacro\<close> dispatches on, and the names its switch knows.\<close>

definition macroName :: "Node \<Rightarrow> string" where
  "macroName n = (if attrVal (Attr n) ''ac:name'' = [] then ''unknown''
                  else attrVal (Attr n) ''ac:name'')"

definition knownMacros :: "string list" where
  "knownMacros = [''info'', ''warning'', ''note'', ''tip'', ''code'', ''noformat'',
     ''mermaid-macro'', ''expand'', ''toc'', ''details'', ''status'', ''children'', ''jira'',
     ''view-file'', ''anchor'']"

text \<open>The switch of \<open>handleMacro\<close>: the result and \<open>tryNext\<close>.\<close>

definition macroResult :: "ConfluencePlugin \<Rightarrow> lib \<Rightarrow> Node \<Rightarrow> string \<Rightarrow> string \<times> bool" where
  "macroResult P L n name =
     (if name = ''info'' then (handleBlockquoteMacro L n emojiInfo ''Info'', False)
      else if name = ''warning'' then (handleBlockquoteMacro L n emojiWarning ''Warning'', False)
      else if name = ''note'' then (handleBlockquoteMacro L n emojiNote ''Note'', False)
      else if name = ''tip'' then (handleBlockquoteMacro L n emojiTip ''Tip'', False)
      else if name = ''code'' then (handleCodeMacro L n, False)
      else if name = ''noformat'' then (handleCodeMacro L n, False)
      else if name = ''mermaid-macro'' then (handleMermaidMacro L n, False)
      else if name = ''expand'' then (handleExpandMacro L n, False)
      else if name = ''toc'' then handleTocMacro n
      else if name = ''details'' then (handleDetailsMacro L n, False)
      else if name = ''status'' then (handleStatusMacro L n, False)
      else if name = ''children'' then (''<!-- Child Pages -->'', False)
      else if name = ''jira'' then (handleJiraMacro P L n, False)
      else if name = ''view-file'' then (handleViewFileMacro P L n, False)
      else if name = ''anchor'' then (handleAnchorMacro L n, False)
      else (''<!-- Unsupported macro: '' @ name @ '' -->'', False))"

definition handleMacro :: "ConfluencePlugin \<Rightarrow> lib \<Rightarrow> Node \<Rightarrow> string \<times> RenderStatus" where
  "handleMacro P L n =
     (let (result, tryNext) = macroResult P L n (macroName n)
      in (result, if tryNext then RenderTryNext else RenderSuccess))"

subsection \<open>Flattening the content of a complex cell\<close>

definition headingTags :: "string list" where
  "headingTags = [''h1'', ''h2'', ''h3'', ''h4'', ''h5'', ''h6'']"

definition inlineTags :: "string list" where
  "inlineTags = [''strong'', ''b'', ''em'', ''i'', ''code'', ''a'']"

text \<open>
  The cases of the switch over \<open>child.Data\<close> in \<open>flattenCellContent\<close>, in the order of the
  source, and those of the switch in \<open>flattenListItemContent\<close>.
\<close>

datatype CellTag = THeading | TBr | TP | TUl | TOl | TTaskList | TInline | TMacro | TEmoticon
  | TLink | TTime | TComment | TPlaceholder | TOther

definition cellTag :: "string \<Rightarrow> CellTag" where
  "cellTag d =
     (if d \<in> set headingTags then THeading
      else if d = ''br'' then TBr
      else if d = ''p'' then TP
      else if d = ''ul'' then TUl
      else if d = ''ol'' then TOl
      else if d = ''ac:task-list'' then TTaskList
      else if d \<in> set inlineTags then TInline
      else if d = ''ac:structured-macro'' then TMacro
      else if d = ''ac:emoticon'' then TEmoticon
      else if d = ''ac:link'' then TLink
      else if d = ''time'' then TTime
      else if d = ''ac:inline-comment-marker'' then TComment
      else if d = ''ac:placeholder'' then TPlaceholder
      else TOther)"

datatype ItemTag = IUl | IOl | IP | IOther

definition itemTag :: "string \<Rightarrow> ItemTag" where
  "itemTag d = (if d = ''ul'' then IUl else if d = ''ol'' then IOl else if d = ''p'' then IP else IOther)"

lemma size_Children: "size_list size (Children n) < Suc (size n + k)"
  by (cases n) simp

text \<open>
  The loops of \<open>flattenCellContent\<close>, \<open>flattenListContentWithDepth\<close>,
  \<open>flattenListItemContent\<close> and \<open>flattenTaskList\<close> over the children of their node; what
  the source writes to the builder is the string returned. A call of one of the four
  functions on a child is the loop on the children of that child (after the \<open><br>\<close> that
  the list functions write first). \<open>flattenItems\<close> carries \<open>index\<close>; \<open>taskFields\<close> is the
  inner loop of \<open>flattenTaskList\<close> and carries \<open>(status, body)\<close>.
\<close>

function (sequential) flattenChildren :: "ConfluencePlugin \<Rightarrow> lib \<Rightarrow> Node list \<Rightarrow> string"
  and flattenItems :: "ConfluencePlugin \<Rightarrow> lib \<Rightarrow> Node list \<Rightarrow> bool \<Rightarrow> nat \<Rightarrow> nat \<Rightarrow> string"
  and flattenItemChildren :: "ConfluencePlugin \<Rightarrow> lib \<Rightarrow> Node list \<Rightarrow> nat \<Rightarrow> string"
  and flattenTasks :: "ConfluencePlugin \<Rightarrow> lib \<Rightarrow> Node list \<Rightarrow> string"
  and taskFields :: "ConfluencePlugin \<Rightarrow> lib \<Rightarrow> Node list \<Rightarrow> string \<times> string \<Rightarrow> string \<times> string"
  where
  "flattenChildren P L [] = []"
| "flattenChildren P L (child # rest) =
     (case Type child of
        TextNode \<Rightarrow> Data child
      | ElementNode \<Rightarrow>
        (case cellTag (Data child) of
           THeading \<Rightarrow> ''<strong>'' @ flattenChildren P L (Children child) @ ''</strong>''
         | TBr \<Rightarrow> ''<br>''
         | TP \<Rightarrow>
            (if Children child \<noteq> [] then
               flattenChildren P L (Children child) @ (if rest \<noteq> [] then '' '' else [])
             else [])
         | TUl \<Rightarrow> ''<br>'' @ flattenItems P L (Children child) False 0 1
         | TOl \<Rightarrow> ''<br>'' @ flattenItems P L (Children child) True 0 1
         | TTaskList \<Rightarrow> ''<br>'' @ flattenTasks P L (Children child)
         | TInline \<Rightarrow> Render L child
         | TMacro \<Rightarrow> fst (handleMacro P L child)
         | TEmoticon \<Rightarrow> fst (handleEmoticon child) @ flattenChildren P L (Children child)
         | TLink \<Rightarrow> fst (handleLink P L child)
         | TTime \<Rightarrow> fst (handleTime child) @ flattenChildren P L (Children child)
         | TComment \<Rightarrow> flattenChildren P L (Children child)
         | TPlaceholder \<Rightarrow> fst (handlePlaceholder child)
         | TOther \<Rightarrow> flattenChildren P L (Children child))
      | _ \<Rightarrow> [])
     @ flattenChildren P L rest"
| "flattenItems P L [] ordered depth index = []"
| "flattenItems P L (li # rest) ordered depth index =
     (if Type li \<noteq> ElementNode \<or> Data li \<noteq> ''li'' then flattenItems P L rest ordered depth index
      else Repeat ''&nbsp;&nbsp;'' depth
             @ (if ordered then Itoa index @ ''. '' else bulletMarker)
             @ flattenItemChildren P L (Children li) depth
             @ ''<br>''
             @ flattenItems P L rest ordered depth (if ordered then index + 1 else index))"
| "flattenItemChildren P L [] depth = []"
| "flattenItemChildren P L (child # rest) depth =
     (case Type child of
        TextNode \<Rightarrow> Data child
      | ElementNode \<Rightarrow>
        (case itemTag (Data child) of
           IUl \<Rightarrow> ''<br>'' @ flattenItems P L (Children child) False (depth + 1) 1
         | IOl \<Rightarrow> ''<br>'' @ flattenItems P L (Children child) True (depth + 1) 1
         | IP \<Rightarrow> (if Children child \<noteq> [] then flattenChildren P L (Children child) else [])
         | IOther \<Rightarrow> flattenChildren P L (Children child))
      | _ \<Rightarrow> [])
     @ flattenItemChildren P L rest depth"
| "flattenTasks P L [] = []"
| "flattenTasks P L (task # rest) =
     (if Type task \<noteq> ElementNode \<or> Data task \<noteq> ''ac:task'' then flattenTasks P L rest
      else (let sb = taskFields P L (Children task) (''incomplete'', [])
            in (if fst sb = ''complete'' then checkedBox else uncheckedBox) @ snd sb @ ''<br>'')
           @ flattenTasks P L rest)"
| "taskFields P L [] sb = sb"
| "taskFields P L (child # rest) sb =
     (if Type child \<noteq> ElementNode then taskFields P L rest sb
      else if Data child = ''ac:task-status'' \<and> Children child \<noteq> []
        then taskFields P L rest (Data (hd (Children child)), snd sb)
      else if Data child = ''ac:task-body''
        then taskFields P L rest (fst sb, flattenChildren P L (Children child))
      else taskFields P L rest sb)"
  by pat_completeness auto
termination
  by (relation "measure (case_sum
        (case_sum (\<lambda>(P, L, ns). size_list size ns) (\<lambda>(P, L, ns, b, d, i). size_list size ns))
        (case_sum (\<lambda>(P, L, ns, d). size_list size ns)
           (case_sum (\<lambda>(P, L, ns). size_list size ns) (\<lambda>(P, L, ns, sb). size_list size ns))))")
     (simp_all add: size_Children)

definition flattenCellContent :: "ConfluencePlugin \<Rightarrow> lib \<Rightarrow> Node \<Rightarrow> string" where
  "flattenCellContent P L n = flattenChildren P L (Children n)"

definition flattenListContentWithDepth ::
    "ConfluencePlugin \<Rightarrow> lib \<Rightarrow> Node \<Rightarrow> bool \<Rightarrow> nat \<Rightarrow> string" where
  "flattenListContentWithDepth P L listNode ordered depth =
     ''<br>'' @ flattenItems P L (Children listNode) ordered depth 1"

definition flattenListItemContent :: "ConfluencePlugin \<Rightarrow> lib \<Rightarrow> Node \<Rightarrow> nat \<Rightarrow> string" where
  "flattenListItemContent P L li depth = flattenItemChildren P L (Children li) depth"

definition flattenTaskList :: "ConfluencePlugin \<Rightarrow> lib \<Rightarrow> Node \<Rightarrow> string" where
  "flattenTaskList P L taskListNode = ''<br>'' @ flattenTasks P L (Children taskListNode)"

text \<open>\<open>getCellHTMLContent\<close>: the flattened content on one line.\<close>

definition getCellHTMLContent :: "ConfluencePlugin \<Rightarrow> lib \<Rightarrow> Node \<Rightarrow> string" where
  "getCellHTMLContent P L cell =
     Join (Fields (ReplaceAll (ReplaceAll (flattenCellContent P L cell) [NL] '' '') [CR] []))
          '' ''"

subsection \<open>Tables\<close>

text \<open>The first child that is not a text node of white space only.\<close>

fun firstNonBlank :: "Node list \<Rightarrow> Node option" where
  "firstNonBlank [] = None"
| "firstNonBlank (c # cs) =
     (if Type c = TextNode \<and> TrimSpace (Data c) = [] then firstNonBlank cs else Some c)"

text \<open>The content of a cell as \<open>handleTable\<close> puts it into the row.\<close>

definition cellContent :: "ConfluencePlugin \<Rightarrow> lib \<Rightarrow> Node \<Rightarrow> string" where
  "cellContent P L cell =
     (let content =
        (if cellHasComplexContent cell then getCellHTMLContent P L cell
         else TrimSpace (case firstNonBlank (Children cell) of
                           None \<Rightarrow> []
                         | Some firstChild \<Rightarrow> RenderNodes L firstChild))
      in if content = [] \<or> content = ''&nbsp;'' then '' '' else content)"

text \<open>
  The loop over the children of a \<open>tr\<close>: \<open>(row, hasOnlyHeaders, hasSomeTd)\<close>.
\<close>

fun rowCells :: "ConfluencePlugin \<Rightarrow> lib \<Rightarrow> Node list \<Rightarrow> string list \<times> bool \<times> bool
                   \<Rightarrow> string list \<times> bool \<times> bool" where
  "rowCells P L [] acc = acc"
| "rowCells P L (cell # rest) (row, hasOnlyHeaders, hasSomeTd) =
     (if Type cell \<noteq> ElementNode then rowCells P L rest (row, hasOnlyHeaders, hasSomeTd)
      else
        let hasSomeTd' = (if Data cell = ''td'' then True else hasSomeTd);
            hasOnlyHeaders' = (if Data cell = ''td'' then False else hasOnlyHeaders);
            row' = (if Data cell = ''td'' \<or> Data cell = ''th''
                    then row @ [cellContent P L cell] else row)
        in rowCells P L rest (row', hasOnlyHeaders', hasSomeTd'))"

text \<open>The loop over the children of the \<open>tbody\<close>: \<open>(rows, isHeaderRow)\<close>.\<close>

fun tableRows :: "ConfluencePlugin \<Rightarrow> lib \<Rightarrow> Node list \<Rightarrow> string list list \<times> bool list
                    \<Rightarrow> string list list \<times> bool list" where
  "tableRows P L [] acc = acc"
| "tableRows P L (tr # rest) (rows, isHeaderRow) =
     (if Type tr \<noteq> ElementNode \<or> Data tr \<noteq> ''tr'' then tableRows P L rest (rows, isHeaderRow)
      else
        let (row, hasOnlyHeaders, hasSomeTd) = rowCells P L (Children tr) ([], True, False)
        in if length row > 0
           then tableRows P L rest (rows @ [row], isHeaderRow @ [hasOnlyHeaders \<and> \<not> hasSomeTd])
           else tableRows P L rest (rows, isHeaderRow))"

fun findTbody :: "Node list \<Rightarrow> Node option" where
  "findTbody [] = None"
| "findTbody (c # cs) =
     (if Type c = ElementNode \<and> Data c = ''tbody'' then Some c else findTbody cs)"

definition maxCols :: "string list list \<Rightarrow> nat" where
  "maxCols rows = fold (\<lambda>row m. if length row > m then length row else m) rows 0"

definition padRow :: "nat \<Rightarrow> string list \<Rightarrow> string list" where
  "padRow m row = row @ replicate (m - length row) '' ''"

text \<open>
  The loop that writes the table: the line of row \<open>i\<close>, and after it the separator when
  the condition of the source holds.
\<close>

fun writeRows :: "nat \<Rightarrow> string list list \<Rightarrow> bool list \<Rightarrow> bool \<Rightarrow> nat \<Rightarrow> string" where
  "writeRows i [] isHeaderRow hasHeaderRow m = []"
| "writeRows i (row # rest) isHeaderRow hasHeaderRow m =
     ''| '' @ Join row '' | '' @ '' |'' @ [NL]
       @ (if (i = 0 \<and> isHeaderRow ! 0) \<or> (i = 0 \<and> \<not> hasHeaderRow)
          then ''|'' @ Repeat ''---|'' m @ [NL] else [])
       @ writeRows (i + 1) rest isHeaderRow hasHeaderRow m"

definition handleTable :: "ConfluencePlugin \<Rightarrow> lib \<Rightarrow> Node \<Rightarrow> string \<times> RenderStatus" where
  "handleTable P L n =
     (case findTbody (Children n) of
        None \<Rightarrow> ([], RenderTryNext)
      | Some tbody \<Rightarrow>
          let (rows, isHeaderRow) = tableRows P L (Children tbody) ([], []) in
          if length rows = 0 then ([], RenderTryNext)
          else
            let m = maxCols rows;
                padded = map (padRow m) rows;
                hasHeaderRow = (\<exists>isHeader \<in> set isHeaderRow. isHeader)
            in (writeRows 0 padded isHeaderRow hasHeaderRow m @ [NL], RenderSuccess))"

section \<open>Pages and the converter\<close>

text \<open>
  The page model of \<open>internal/confluence/model\<close>, with the fields the converter reads;
  \<open>Content\<close> is \<open>Content.Storage.Value\<close>. An error is its message.
\<close>

record User =
  AccountID :: string
  DisplayName :: string

record ConfluenceAttachment =
  AttachmentID :: string
  AttachmentTitle :: string
  MediaType :: string
  FileSize :: int
  DownloadLink :: string

record ConfluencePage =
  ID :: string
  Title :: string
  SpaceKey :: string
  Content :: string
  Attachments :: "ConfluenceAttachment list"
  CreatedBy :: User
  UpdatedBy :: User

record ImageRef =
  OriginalURL :: string
  FileName :: string
  ContentType :: string
  Size :: int

text \<open>
  \<open>MarkdownDocument\<close> of \<open>internal/converter/model\<close>, whose file is not part of the sources
  at hand: the fields \<open>ConvertPage\<close> reads and writes (\<open>PageID\<close> is
  \<open>Frontmatter.Confluence.PageID\<close>).
\<close>

record MarkdownDocument =
  PageID :: string
  DocContent :: string
  Images :: "ImageRef list"

text \<open>
  What the converter calls outside this repository's sources at hand: the Markdown
  converter with the plugin registered (\<open>mdConverter.ConvertString\<close>, which gives a text
  and maybe an error), \<open>model.NewMarkdownDocument\<close>, \<open>plugin.ParseConfluenceImage\<close>,
  \<open>url.Parse\<close> (the error, if any), \<open>url.QueryEscape\<close>, the client's \<open>GetUser\<close>
  (\<open>DisplayName\<close> and \<open>PublicName\<close>, or an error), the attachment service, the file
  system and package \<open>filepath\<close>.
\<close>

record env =
  ConvertString :: "ConfluencePlugin \<Rightarrow> string \<Rightarrow> string \<times> string option"
  NewMarkdownDocument :: "ConfluencePage \<Rightarrow> string \<Rightarrow> string + MarkdownDocument"
  ParseConfluenceImage :: "string \<Rightarrow> string"
  Parse :: "string \<Rightarrow> string option"
  QueryEscape :: "string \<Rightarrow> string"
  GetUser :: "string \<Rightarrow> string + (string \<times> string)"
  DownloadAttachment :: "ConfluencePage \<Rightarrow> string \<Rightarrow> string + (ConfluenceAttachment \<times> string)"
  MkdirAll :: "string \<Rightarrow> string option"
  WriteFile :: "string \<Rightarrow> string \<Rightarrow> string option"
  filepathJoin :: "string list \<Rightarrow> string"
  filepathDir :: "string \<Rightarrow> string"

text \<open>
  The converter: its plugin, whether the plugin has a client (\<open>p.client != nil\<close>), whether
  \<open>c.attachments\<close> is set, and the image folder.
\<close>

record Converter =
  plugin :: ConfluencePlugin
  hasClient :: bool
  hasAttachments :: bool
  converterImageFolder :: string

text \<open>\<open>ConfluenceAttachment.Validate\<close> and \<open>ConfluencePage.Validate\<close>: the error, if any.\<close>

definition ValidateAttachment :: "env \<Rightarrow> ConfluenceAttachment \<Rightarrow> string option" where
  "ValidateAttachment E ca =
     (if AttachmentID ca = [] then Some ''attachment ID cannot be empty''
      else if AttachmentTitle ca = [] then Some ''attachment title cannot be empty''
      else if MediaType ca = [] then Some ''attachment media type cannot be empty''
      else if FileSize ca \<le> 0 then Some ''attachment file size must be greater than 0''
      else if DownloadLink ca = [] then Some ''attachment download link cannot be empty''
      else (case Parse E (DownloadLink ca) of
              Some err \<Rightarrow> Some (''invalid download link: '' @ err)
            | None \<Rightarrow> None))"

fun ValidateAttachments :: "env \<Rightarrow> nat \<Rightarrow> ConfluenceAttachment list \<Rightarrow> string option" where
  "ValidateAttachments E i [] = None"
| "ValidateAttachments E i (attachment # rest) =
     (case ValidateAttachment E attachment of
        Some err \<Rightarrow> Some (''invalid attachment at index '' @ Itoa i @ '': '' @ err)
      | None \<Rightarrow> ValidateAttachments E (i + 1) rest)"

definition Validate :: "env \<Rightarrow> ConfluencePage \<Rightarrow> string option" where
  "Validate E cp =
     (if ID cp = [] then Some ''page ID cannot be empty''
      else if Title cp = [] then Some ''page title cannot be empty''
      else if Content cp = [] then Some ''page content cannot be empty''
      else if SpaceKey cp = [] then Some ''space key cannot be empty''
      else ValidateAttachments E 0 (Attachments cp))"

text \<open>
  \<open>ExtractUserAccountIDs\<close>: the values of the \<open>ri:account-id\<close> attributes that are not
  empty. The source collects them as the keys of a map and returns them in the order of
  the map's iteration, which Go leaves open; the model returns them in the order of their
  first occurrence.
\<close>

definition accountIdAttr :: string where
  "accountIdAttr = ''ri:account-id='' @ [CHR 0x22]"

function ExtractLoop :: "string \<Rightarrow> string list" where
  "ExtractLoop [] = []"
| "ExtractLoop (x # xs) =
     (if take (length accountIdAttr) (x # xs) = accountIdAttr then
        (let after = drop (length accountIdAttr) (x # xs);
             accountID = takeWhile (\<lambda>c. c \<noteq> CHR 0x22) after
         in if length accountID = length after then []
            else (if accountID \<noteq> [] then [accountID] else [])
                   @ ExtractLoop (drop (length accountID + 1) after))
      else ExtractLoop xs)"
  by pat_completeness auto
termination
  by (relation "measure length") (auto simp: accountIdAttr_def)

definition ExtractUserAccountIDs :: "string \<Rightarrow> string list" where
  "ExtractUserAccountIDs html = remdups (ExtractLoop html)"

text \<open>The loop of \<open>extractAndCacheUsers\<close> over the account ids, on the cache.\<close>

fun cacheUsers :: "env \<Rightarrow> string list \<Rightarrow> (string \<rightharpoonup> string) \<Rightarrow> (string \<rightharpoonup> string)" where
  "cacheUsers E [] cache = cache"
| "cacheUsers E (accountID # rest) cache =
     (case cache accountID of
        Some _ \<Rightarrow> cacheUsers E rest cache
      | None \<Rightarrow>
          (case GetUser E accountID of
             Inl err \<Rightarrow> cacheUsers E rest cache
           | Inr (displayName, publicName) \<Rightarrow>
               if displayName \<noteq> [] then cacheUsers E rest (cache(accountID \<mapsto> displayName))
               else if publicName \<noteq> [] then cacheUsers E rest (cache(accountID \<mapsto> publicName))
               else cacheUsers E rest cache))"

text \<open>\<open>SetCurrentPage\<close> (of a page that is not nil) and \<open>SetBaseURL\<close>, on the plugin.\<close>

definition SetCurrentPage :: "env \<Rightarrow> bool \<Rightarrow> ConfluencePlugin \<Rightarrow> ConfluencePage \<Rightarrow> ConfluencePlugin" where
  "SetCurrentPage E client P page =
     (let c1 = (if AccountID (CreatedBy page) \<noteq> [] \<and> DisplayName (CreatedBy page) \<noteq> []
                then (userCache P)(AccountID (CreatedBy page) \<mapsto> DisplayName (CreatedBy page))
                else userCache P);
          c2 = (if AccountID (UpdatedBy page) \<noteq> [] \<and> DisplayName (UpdatedBy page) \<noteq> []
                then c1(AccountID (UpdatedBy page) \<mapsto> DisplayName (UpdatedBy page))
                else c1);
          accountIDs = ExtractUserAccountIDs (Content page);
          c3 = (if client \<and> length accountIDs > 0 then cacheUsers E accountIDs c2 else c2)
      in P\<lparr>userCache := c3\<rparr>)"

definition SetBaseURL :: "ConfluencePlugin \<Rightarrow> string \<Rightarrow> ConfluencePlugin" where
  "SetBaseURL P url = P\<lparr>baseURL := url\<rparr>"

text \<open>
  \<open>convertHtml\<close>: the Markdown text, the error returned, and what is printed. \<open>ConvertHTML\<close>
  returns what \<open>convertHtml\<close> returns.
\<close>

definition convertHtml :: "env \<Rightarrow> Converter \<Rightarrow> string \<Rightarrow> string \<times> string option \<times> string list" where
  "convertHtml E c html =
     (let processedHTML = preprocessCDATA html;
          (md, err) = ConvertString E (plugin c) processedHTML;
          printed = (case err of None \<Rightarrow> []
                     | Some e \<Rightarrow> [''Conversion error: '' @ e @ [NL]])
      in (postprocessMarkdown md, None, printed))"

definition ConvertHTML :: "env \<Rightarrow> Converter \<Rightarrow> string \<Rightarrow> string \<times> string option \<times> string list" where
  "ConvertHTML E c html = convertHtml E c html"

text \<open>
  The pattern of \<open>extractImageReferences\<close>:
  \<^verbatim>\<open><ri:attachment[^>]*(ri:filename="[^"]+)"\<close>.
\<close>

definition acImageRegex :: re where
  "acImageRegex =
     Cat (Str ''<ri:attachment'')
    (Cat (Rep 0 (chr_not CHR ''>''))
    (Cat (Grp 1 (Cat (Str (''ri:filename='' @ [CHR 0x22])) (Rep 1 (chr_not CHR 0x22))))
         (Chr (chr_is CHR 0x22))))"

definition extractImageReferences :: "env \<Rightarrow> string \<Rightarrow> string \<Rightarrow> string \<Rightarrow> ImageRef list" where
  "extractImageReferences E html pageID url =
     concat (map (\<lambda>imageHTML.
        let fileName = ParseConfluenceImage E imageHTML in
        if fileName = [] then []
        else [\<lparr>OriginalURL = TrimSuffix url ''/'' @ ''/download/attachments/'' @ pageID
                               @ ''/'' @ QueryEscape E fileName,
               FileName = fileName, ContentType = [], Size = 0\<rparr>])
       (FindAllString acImageRegex html))"

definition maxImageSizeBytes :: int where
  "maxImageSizeBytes = 50 * 1024 * 1024"

text \<open>
  The loop of \<open>downloadImages\<close>: the images with content type and size filled in, or the
  first error. The file written is not part of the result.
\<close>

fun downloadLoop :: "env \<Rightarrow> Converter \<Rightarrow> ConfluencePage \<Rightarrow> string \<Rightarrow> ImageRef list
                       \<Rightarrow> string + ImageRef list" where
  "downloadLoop E c page outputDir [] = Inr []"
| "downloadLoop E c page outputDir (imageRef # rest) =
     (case DownloadAttachment E page (FileName imageRef) of
        Inl err \<Rightarrow> Inl (''failed to download image '' @ FileName imageRef @ '': '' @ err)
      | Inr (attachment, data) \<Rightarrow>
          if FileSize attachment > maxImageSizeBytes then
            Inl (''image '' @ FileName imageRef @ '' too large: ''
                   @ Itoa (nat (FileSize attachment)) @ '' bytes (max ''
                   @ Itoa (nat maxImageSizeBytes) @ '')'')
          else
            let filePath = filepathJoin E [outputDir, converterImageFolder c, FileName imageRef]
            in (case MkdirAll E (filepathDir E filePath) of
                  Some err \<Rightarrow> Inl (''failed to create image directory: '' @ err)
                | None \<Rightarrow>
                   (case WriteFile E filePath data of
                      Some err \<Rightarrow>
                        Inl (''failed to write image '' @ FileName imageRef @ '': '' @ err)
                    | None \<Rightarrow>
                       (case downloadLoop E c page outputDir rest of
                          Inl err \<Rightarrow> Inl err
                        | Inr done \<Rightarrow>
                            Inr (imageRef\<lparr>ContentType := MediaType attachment,
                                           Size := FileSize attachment\<rparr> # done)))))"

text \<open>
  \<open>downloadImages\<close>, called with a document and a page that are not nil: the document
  with its images filled in, or the error.
\<close>

definition downloadImages :: "env \<Rightarrow> Converter \<Rightarrow> MarkdownDocument \<Rightarrow> ConfluencePage \<Rightarrow> string
                                \<Rightarrow> string + MarkdownDocument" where
  "downloadImages E c doc page outputDir =
     (if length (Images doc) = 0 then Inr doc
      else (case downloadLoop E c page outputDir (Images doc) of
              Inl err \<Rightarrow> Inl err
            | Inr images \<Rightarrow> Inr (doc\<lparr>Images := images\<rparr>)))"

text \<open>
  \<open>ConvertPage\<close>: \<open>Inl\<close> the error (and no document), \<open>Inr\<close> the document. The plugin of the
  converter is the one \<open>SetCurrentPage\<close> and \<open>SetBaseURL\<close> have updated.
\<close>

definition ConvertPage :: "env \<Rightarrow> Converter \<Rightarrow> ConfluencePage \<Rightarrow> string \<Rightarrow> string
                             \<Rightarrow> string + MarkdownDocument" where
  "ConvertPage E c page url outputDir =
     (case Validate E page of
        Some err \<Rightarrow> Inl (''invalid page: '' @ err)
      | None \<Rightarrow>
          let c' = c\<lparr>plugin := SetBaseURL (SetCurrentPage E (hasClient c) (plugin c) page) url\<rparr>
          in (case NewMarkdownDocument E page url of
                Inl err \<Rightarrow> Inl (''failed to create markdown document: '' @ err)
              | Inr doc \<Rightarrow>
                  let htmlContent = Content page;
                      (markdown, err, printed) = convertHtml E c' htmlContent
                  in (case err of
                        Some e \<Rightarrow> Inl (''failed to convert HTML to Markdown: '' @ e)
                      | None \<Rightarrow>
                          let doc' = doc\<lparr>DocContent := markdown,
                                         Images := extractImageReferences E htmlContent
                                                     (PageID doc) url\<rparr>
                          in if hasAttachments c' then
                               (case downloadImages E c' doc' page outputDir of
                                  Inl e \<Rightarrow> Inl (''failed to download images: '' @ e)
                                | Inr d \<Rightarrow> Inr d)
                             else Inr doc')))"

section \<open>Example values\<close>

text \<open>The text of a node: its text nodes in order.\<close>

fun textOf :: "Node \<Rightarrow> string" and textOfAll :: "Node list \<Rightarrow> string" where
  "textOf (Node t d a cs) = (if t = TextNode then d else textOfAll cs)"
| "textOfAll [] = []"
| "textOfAll (c # cs) = textOf c @ textOfAll cs"

text \<open>
  A library for the examples: it renders a paragraph as its text between blank lines and
  anything else as its text, and a query on a document finds nothing.
\<close>

definition exampleLib :: lib where
  "exampleLib =
     \<lparr>RenderNodes = (\<lambda>n. if Type n = ElementNode \<and> Data n = ''p''
                           then [NL, NL] @ textOf n @ [NL, NL] else textOf n),
      Render = textOf,
      NewDocumentFromReader = (\<lambda>s. Inr []),
      Find = (\<lambda>sel q. []),
      Text = (\<lambda>sel. []),
      AttrOf = (\<lambda>sel a. None),
      Html = (\<lambda>sel. []),
      Make = (\<lambda>s. s),
      ToLower = (\<lambda>s. s),
      extractLanguageParameter = (\<lambda>s. []),
      extractCodeContent = (\<lambda>s. [])\<rparr>"

definition examplePlugin :: ConfluencePlugin where
  "examplePlugin = \<lparr>imageFolder = ''images'', baseURL = [], userCache = Map.empty\<rparr>"

definition element :: "string \<Rightarrow> Attribute list \<Rightarrow> Node list \<Rightarrow> Node" where
  "element d a cs = Node ElementNode d a cs"

definition textNode :: "string \<Rightarrow> Node" where
  "textNode d = Node TextNode d [] []"

definition exampleEnv :: env where
  "exampleEnv =
     \<lparr>ConvertString = (\<lambda>P s. (s, Some ''unsupported markup'')),
      NewMarkdownDocument = (\<lambda>page url. Inr \<lparr>PageID = ID page, DocContent = [], Images = []\<rparr>),
      ParseConfluenceImage = (\<lambda>s. []),
      Parse = (\<lambda>s. None),
      QueryEscape = (\<lambda>s. s),
      GetUser = (\<lambda>a. Inl ''no user''),
      DownloadAttachment = (\<lambda>page name. Inl ''no attachment''),
      MkdirAll = (\<lambda>p. None),
      WriteFile = (\<lambda>p d. None),
      filepathJoin = concat,
      filepathDir = (\<lambda>p. p)\<rparr>"

definition exampleConverter :: Converter where
  "exampleConverter =
     \<lparr>plugin = examplePlugin, hasClient = False, hasAttachments = False,
      converterImageFolder = []\<rparr>"

definition nobody :: User where
  "nobody = \<lparr>AccountID = [], DisplayName = []\<rparr>"

definition untitledPage :: ConfluencePage where
  "untitledPage =
     \<lparr>ID = ''42'', Title = [], SpaceKey = ''DOC'', Content = ''<p>Hello</p>'',
      Attachments = [], CreatedBy = nobody, UpdatedBy = nobody\<rparr>"

section \<open>Unknown macros\<close>

text \<open>
  Claim C6. A structured macro whose name is none of the names the switch of
  \<open>handleMacro\<close> knows is written as the comment \<open><!-- Unsupported macro: NAME -->\<close> with
  that name, and the handler returns \<open>RenderSuccess\<close>: no error, nothing dropped. The name
  is the value of the first \<open>ac:name\<close> attribute, and \<open>unknown\<close> when the node has none or
  an empty one.
\<close>

theorem handleMacro_unsupported:
  "macroName n \<notin> set knownMacros \<Longrightarrow>
     handleMacro P L n = (''<!-- Unsupported macro: '' @ macroName n @ '' -->'', RenderSuccess)"
  by (simp add: handleMacro_def macroResult_def knownMacros_def)

theorem handleMacro_unsupported_witness:
  "macroName (element ''ac:structured-macro'' [Attribute ''ac:name'' ''gadget''] [])
     \<notin> set knownMacros
   \<and> handleMacro examplePlugin exampleLib
       (element ''ac:structured-macro'' [Attribute ''ac:name'' ''gadget''] [])
     = (''<!-- Unsupported macro: gadget -->'', RenderSuccess)"
  using handleMacro_unsupported
    [of "element ''ac:structured-macro'' [Attribute ''ac:name'' ''gadget''] []"
        examplePlugin exampleLib]
  by (simp add: macroName_def element_def knownMacros_def)

section \<open>Header rows\<close>

text \<open>
  The cells of a row are its \<open>td\<close> and \<open>th\<close> elements. The rows \<open>handleTable\<close> records
  are the \<open>tr\<close> elements of the \<open>tbody\<close> that have a cell.
\<close>

definition isCell :: "Node \<Rightarrow> bool" where
  "isCell c = (Type c = ElementNode \<and> (Data c = ''td'' \<or> Data c = ''th''))"

definition cells :: "Node \<Rightarrow> Node list" where
  "cells tr = filter isCell (Children tr)"

definition isRow :: "Node \<Rightarrow> bool" where
  "isRow tr = (Type tr = ElementNode \<and> Data tr = ''tr'' \<and> cells tr \<noteq> [])"

lemma rowCells_result:
  "rowCells P L cs (row, h, t) =
     (row @ map (cellContent P L) (filter isCell cs),
      h \<and> (\<forall>c \<in> set cs. \<not> (Type c = ElementNode \<and> Data c = ''td'')),
      t \<or> (\<exists>c \<in> set cs. Type c = ElementNode \<and> Data c = ''td''))"
  by (induction cs arbitrary: row h t) (auto simp: Let_def isCell_def)

lemma tableRows_result:
  "tableRows P L trs (rows, flags) =
     (rows @ map (\<lambda>tr. map (cellContent P L) (cells tr)) (filter isRow trs),
      flags @ map (\<lambda>tr. \<forall>cell \<in> set (cells tr). Data cell = ''th'') (filter isRow trs))"
proof (induction trs arbitrary: rows flags)
  case Nil
  show ?case by simp
next
  case (Cons tr trs)
  show ?case
  proof (cases "Type tr \<noteq> ElementNode \<or> Data tr \<noteq> ''tr''")
    case True
    then have "\<not> isRow tr" by (auto simp: isRow_def)
    with True show ?thesis by (simp add: Cons.IH)
  next
    case False
    show ?thesis
    proof (cases "cells tr = []")
      case True
      then have "\<not> isRow tr" by (simp add: isRow_def)
      with False True show ?thesis
        by (simp add: Cons.IH rowCells_result cells_def)
    next
      case nonempty: False
      with False have "isRow tr" by (simp add: isRow_def)
      moreover have "(\<forall>c \<in> set (Children tr). Type c = ElementNode \<longrightarrow> Data c \<noteq> ''td'')
          = (\<forall>cell \<in> set (cells tr). Data cell = ''th'')"
        by (auto simp: cells_def isCell_def)
      ultimately show ?thesis
        using False nonempty by (simp add: Cons.IH rowCells_result) (simp add: cells_def)
    qed
  qed
qed

text \<open>
  Claim C4. For the rows of a table body, \<open>handleTable\<close> records one flag per row that
  has a \<open>th\<close> or \<open>td\<close> cell, and the flag says header row if and only if every one of
  these cells is a \<open>th\<close> (none is a \<open>td\<close>). So a row of one \<open>th\<close> and one \<open>td\<close> is a
  data row and a row of two \<open>th\<close> is a header row, as the witness computes.
\<close>

theorem tableRows_header_flags:
  "tableRows P L trs ([], []) =
     (map (\<lambda>tr. map (cellContent P L) (cells tr)) (filter isRow trs),
      map (\<lambda>tr. \<forall>cell \<in> set (cells tr). Data cell = ''th'') (filter isRow trs))"
  by (simp add: tableRows_result)

definition mixedRow :: Node where
  "mixedRow = element ''tr'' [] [element ''th'' [] [], element ''td'' [] []]"

definition headerRow :: Node where
  "headerRow = element ''tr'' [] [element ''th'' [] [], element ''th'' [] []]"

theorem tableRows_header_flags_witness:
  "tableRows examplePlugin exampleLib [mixedRow, headerRow] ([], [])
     = ([['' '', '' ''], ['' '', '' '']], [False, True])"
proof -
  have "(map (\<lambda>tr. map (cellContent examplePlugin exampleLib) (cells tr))
           (filter isRow [mixedRow, headerRow]),
         map (\<lambda>tr. \<forall>cell \<in> set (cells tr). Data cell = ''th'')
           (filter isRow [mixedRow, headerRow]))
        = ([['' '', '' ''], ['' '', '' '']], [False, True])"
    by code_simp
  with tableRows_header_flags [of examplePlugin exampleLib "[mixedRow, headerRow]"]
  show ?thesis by (simp only:)
qed

section \<open>Raw markup never fails\<close>

text \<open>
  Claim C10. \<open>ConvertHTML\<close> returns a nil error for every input: an error of the Markdown
  converter is printed and dropped, and the text returned is the post-processed text the
  converter gave (possibly empty).
\<close>

theorem ConvertHTML_never_fails:
  "fst (snd (ConvertHTML E c html)) = None
   \<and> fst (ConvertHTML E c html)
       = postprocessMarkdown (fst (ConvertString E (plugin c) (preprocessCDATA html)))
   \<and> snd (snd (ConvertHTML E c html))
       = (case snd (ConvertString E (plugin c) (preprocessCDATA html)) of
            None \<Rightarrow> []
          | Some e \<Rightarrow> [''Conversion error: '' @ e @ [NL]])"
  by (simp add: ConvertHTML_def convertHtml_def Let_def split: prod.splits)

theorem ConvertHTML_never_fails_witness:
  "snd (ConvertString exampleEnv (plugin exampleConverter) (preprocessCDATA ''<x>''))
     = Some ''unsupported markup''
   \<and> fst (snd (ConvertHTML exampleEnv exampleConverter ''<x>'')) = None
   \<and> snd (snd (ConvertHTML exampleEnv exampleConverter ''<x>''))
       = [''Conversion error: unsupported markup'' @ [NL]]"
  using ConvertHTML_never_fails [of exampleEnv exampleConverter "''<x>''"]
  by (simp add: exampleEnv_def)

section \<open>User mentions\<close>

lemma handleAnchorLink_TryNext:
  "snd (handleAnchorLink L n) = RenderTryNext \<Longrightarrow> fst (handleAnchorLink L n) = []"
  by (auto simp: handleAnchorLink_def Let_def split: sum.splits option.splits if_splits)

lemma handleAnchorLink_status:
  "snd (handleAnchorLink L n) \<noteq> RenderTryNext \<Longrightarrow> snd (handleAnchorLink L n) = RenderSuccess"
  by (cases "snd (handleAnchorLink L n)") simp_all

text \<open>A user child: a \<open>ri:user\<close> element with an account id that is not empty.\<close>

definition isUser :: "Node \<Rightarrow> bool" where
  "isUser c = (Type c = ElementNode \<and> Data c = ''ri:user''
                \<and> attrVal (Attr c) ''ri:account-id'' \<noteq> [])"

lemma userLoop_result:
  "u \<in> set cs \<Longrightarrow> isUser u \<Longrightarrow>
   \<forall>v \<in> set cs. isUser v \<longrightarrow> attrVal (Attr v) ''ri:account-id'' = accountID \<Longrightarrow>
   userLoop P cs =
     (case userCache P accountID of
        Some displayName \<Rightarrow> ('' @'' @ displayName @ '' '', RenderTryNext)
      | None \<Rightarrow> ('' @user('' @ accountID @ '') '', RenderTryNext))"
proof (induction cs)
  case Nil
  then show ?case by simp
next
  case (Cons c cs)
  show ?case
  proof (cases "isUser c")
    case True
    with Cons.prems(3) have "attrVal (Attr c) ''ri:account-id'' = accountID" by simp
    with True show ?thesis by (simp add: isUser_def Let_def)
  next
    case False
    with Cons.prems have "u \<in> set cs" by auto
    from Cons.IH [OF this Cons.prems(2)] Cons.prems(3) False
    show ?thesis by (auto simp: isUser_def Let_def)
  qed
qed

text \<open>
  Claim C9, as amended. For every link node whose user children carry the account id
  \<open>a\<close> (\<open>abc123\<close> in the witness): when \<open>handleAnchorLink\<close> passes the node on (it has no
  \<open>ac:anchor\<close> attribute, or no link text), the handler writes \<open>@user(a)\<close> if the cache
  has no entry for \<open>a\<close> and \<open>@DisplayName\<close> with the cached name if it has one, and
  returns \<open>RenderTryNext\<close>; when \<open>handleAnchorLink\<close> renders the node as an anchor link,
  that link is all the handler writes and no mention is written. The handler asks no
  resolver, so this holds with or without a client.
\<close>

theorem mention_rendering:
  assumes "u \<in> set (Children n)" and "isUser u"
    and "\<forall>v \<in> set (Children n). isUser v \<longrightarrow> attrVal (Attr v) ''ri:account-id'' = accountID"
  shows "handleLink P L n =
     (if snd (handleAnchorLink L n) = RenderTryNext then
        (case userCache P accountID of
           Some displayName \<Rightarrow> ('' @'' @ displayName @ '' '', RenderTryNext)
         | None \<Rightarrow> ('' @user('' @ accountID @ '') '', RenderTryNext))
      else (fst (handleAnchorLink L n), RenderSuccess))"
proof (cases "snd (handleAnchorLink L n) = RenderTryNext")
  case True
  with handleAnchorLink_TryNext [OF True] userLoop_result [OF assms, of P]
  show ?thesis by (simp add: handleLink_def split: option.splits)
next
  case False
  then show ?thesis by (simp add: handleLink_def)
qed

definition mention :: Node where
  "mention = element ''ac:link'' [] [element ''ri:user'' [Attribute ''ri:account-id'' ''abc123''] []]"

theorem mention_rendering_witness:
  "userCache examplePlugin ''abc123'' = None
   \<and> handleLink examplePlugin exampleLib mention = ('' @user(abc123) '', RenderTryNext)
   \<and> handleLink (examplePlugin\<lparr>userCache := [''abc123'' \<mapsto> ''Ada Lovelace'']\<rparr>) exampleLib mention
       = ('' @Ada Lovelace '', RenderTryNext)"
proof -
  have a: "snd (handleAnchorLink exampleLib mention) = RenderTryNext"
    by (simp add: handleAnchorLink_def exampleLib_def)
  have u: "element ''ri:user'' [Attribute ''ri:account-id'' ''abc123''] [] \<in> set (Children mention)"
    by (simp add: mention_def element_def)
  have i: "isUser (element ''ri:user'' [Attribute ''ri:account-id'' ''abc123''] [])"
    by (simp add: isUser_def element_def)
  have o: "\<forall>v \<in> set (Children mention). isUser v \<longrightarrow> attrVal (Attr v) ''ri:account-id'' = ''abc123''"
    by (simp add: mention_def element_def)
  from mention_rendering [OF u i o, of examplePlugin exampleLib]
       mention_rendering [OF u i o, of "examplePlugin\<lparr>userCache := [''abc123'' \<mapsto> ''Ada Lovelace'']\<rparr>"
         exampleLib]
       a
  show ?thesis by (simp add: examplePlugin_def)
qed

text \<open>
  A link that carries a mention of \<open>abc123\<close> and also an \<open>ac:anchor\<close> attribute and a link
  text, and a library whose goquery document is a given node: the query for \<open>ac:link\<close>
  finds the link nodes of the selection, the query for the link body finds those children
  of the selection, \<open>Attr\<close> reads the first node and \<open>Text\<close> is the text of the nodes.
\<close>

definition anchoredMention :: Node where
  "anchoredMention =
     element ''ac:link'' [Attribute ''ac:anchor'' ''sec'']
       [element ''ri:user'' [Attribute ''ri:account-id'' ''abc123''] [],
        element ''ac:plain-text-link-body'' [] [textNode ''jump'']]"

fun lookupAttr :: "Attribute list \<Rightarrow> string \<Rightarrow> string option" where
  "lookupAttr [] key = None"
| "lookupAttr (attr # as) key = (if Key attr = key then Some (Val attr) else lookupAttr as key)"

definition documentLib :: "Node \<Rightarrow> lib" where
  "documentLib d =
     exampleLib
       \<lparr>NewDocumentFromReader := (\<lambda>s. Inr [d]),
        Find := (\<lambda>sel q.
          if q = ''ac'' @ [BS] @ '':link'' then filter (\<lambda>n. Data n = ''ac:link'') sel
          else if q = ''ac'' @ [BS] @ '':plain-text-link-body''
            then concat (map (\<lambda>n. filter (\<lambda>c. Data c = ''ac:plain-text-link-body'')
                                     (Children n)) sel)
          else []),
        Text := textOfAll,
        AttrOf := (\<lambda>sel key. case sel of [] \<Rightarrow> None | n # _ \<Rightarrow> lookupAttr (Attr n) key)\<rparr>"

text \<open>\<open>strings.Contains\<close>.\<close>

fun Contains :: "string \<Rightarrow> string \<Rightarrow> bool" where
  "Contains [] substr = (substr = [])"
| "Contains (x # xs) substr = (take (length substr) (x # xs) = substr \<or> Contains xs substr)"

text \<open>
  The claim as first stated holds of every link node with a mention of \<open>abc123\<close>. For the
  anchored one, with no cache entry, the handler writes the anchor link and returns
  \<open>RenderSuccess\<close>: the output has no \<open>@user(abc123)\<close>.
\<close>

theorem anchored_mention_not_rendered:
  "userCache examplePlugin ''abc123'' = None
   \<and> handleLink examplePlugin (documentLib anchoredMention) anchoredMention
       = (''[jump](#sec)'', RenderSuccess)
   \<and> \<not> Contains (fst (handleLink examplePlugin (documentLib anchoredMention) anchoredMention))
           ''@user(abc123)''"
  by code_simp

section \<open>When \<open>ConvertPage\<close> fails\<close>

lemma ValidateAttachments_None:
  "(ValidateAttachments E i as = None) = (\<forall>a \<in> set as. ValidateAttachment E a = None)"
  by (induction as arbitrary: i) (auto split: option.splits)

lemma Validate_None:
  "(Validate E page = None) =
     (ID page \<noteq> [] \<and> Title page \<noteq> [] \<and> Content page \<noteq> [] \<and> SpaceKey page \<noteq> []
      \<and> (\<forall>a \<in> set (Attachments page). ValidateAttachment E a = None))"
  by (simp add: Validate_def ValidateAttachments_None)

lemma downloadLoop_plugin:
  "downloadLoop E (c\<lparr>plugin := p\<rparr>) page out imgs = downloadLoop E c page out imgs"
  by (induction imgs) (auto split: sum.splits option.splits)

text \<open>
  Claim C8, as amended. \<open>ConvertPage\<close> returns an error and no document exactly when the
  page fails validation (an empty identifier, title, content or space key, or an invalid
  attachment: all rejected before anything is rendered), or creating the document fails,
  or attachments are downloaded and a download, the size of an image or writing a file
  fails. What the Markdown converter returns, its error included, has no part in it.
\<close>

theorem ConvertPage_fails_iff:
  "isl (ConvertPage E c page url out) =
     (ID page = [] \<or> Title page = [] \<or> Content page = [] \<or> SpaceKey page = []
      \<or> (\<exists>a \<in> set (Attachments page). ValidateAttachment E a \<noteq> None)
      \<or> (case NewMarkdownDocument E page url of
            Inl e \<Rightarrow> True
          | Inr doc \<Rightarrow>
              hasAttachments c
              \<and> isl (downloadLoop E c page out
                       (extractImageReferences E (Content page) (PageID doc) url))))"
proof (cases "Validate E page")
  case None
  then have v: "ID page \<noteq> [] \<and> Title page \<noteq> [] \<and> Content page \<noteq> [] \<and> SpaceKey page \<noteq> []
      \<and> (\<forall>a \<in> set (Attachments page). ValidateAttachment E a = None)"
    by (simp add: Validate_None)
  show ?thesis
    using None v
    by (auto simp: ConvertPage_def convertHtml_def downloadImages_def downloadLoop_plugin Let_def
          split: sum.splits option.splits prod.splits)
next
  case (Some err)
  then have "\<not> (ID page \<noteq> [] \<and> Title page \<noteq> [] \<and> Content page \<noteq> [] \<and> SpaceKey page \<noteq> []
      \<and> (\<forall>a \<in> set (Attachments page). ValidateAttachment E a = None))"
    using Validate_None [of E page] by simp
  with Some show ?thesis
    by (auto simp: ConvertPage_def)
qed

theorem ConvertPage_fails_iff_witness:
  "Title untitledPage = []
   \<and> isl (ConvertPage exampleEnv exampleConverter untitledPage ''https://wiki'' ''out'')"
  using ConvertPage_fails_iff [of exampleEnv exampleConverter untitledPage "''https://wiki''" "''out''"]
  by (simp add: untitledPage_def)

text \<open>
  The claim as first stated names an empty identifier, content or space key as the only
  failures. A page with all three and an empty title is rejected.
\<close>

theorem ConvertPage_empty_title_fails:
  "ID untitledPage \<noteq> [] \<and> Content untitledPage \<noteq> [] \<and> SpaceKey untitledPage \<noteq> []
   \<and> ConvertPage exampleEnv exampleConverter untitledPage ''https://wiki'' ''out''
       = Inl ''invalid page: page title cannot be empty''"
  by (simp add: ConvertPage_def Validate_def untitledPage_def)

section \<open>Simple and complex cells\<close>

text \<open>The children that count as block elements: \<open>p\<close> and the headings.\<close>

definition isBlock :: "Node \<Rightarrow> bool" where
  "isBlock c = (Type c = ElementNode \<and> Data c \<in> set blockTags)"

lemma tags_disjoint:
  "d \<in> set alwaysComplex \<Longrightarrow> d \<notin> set blockTags"
  "d \<in> set alwaysComplex \<Longrightarrow> d \<noteq> ''br''"
  "d \<in> set blockTags \<Longrightarrow> d \<noteq> ''br''"
  by (auto simp: alwaysComplex_def blockTags_def)

lemma cellLoop_iff:
  "k \<le> 1 \<Longrightarrow> cellLoop k cs =
     ((\<exists>c \<in> set cs. Type c = ElementNode \<and> Data c \<in> set alwaysComplex)
      \<or> k + length (filter isBlock cs) > 1
      \<or> (\<exists>c \<in> set cs. isBlock c \<and> containsBrTags c)
      \<or> (\<exists>c \<in> set cs. Type c = ElementNode \<and> Data c = ''br''))"
proof (induction cs arbitrary: k)
  case Nil
  then show ?case by simp
next
  case (Cons c cs)
  note IH = Cons.IH [OF Cons.prems]
  show ?case
  proof (cases "Type c = ElementNode")
    case False
    then have "\<not> isBlock c" by (simp add: isBlock_def)
    with False show ?thesis by (simp add: IH)
  next
    case True
    consider (complex) "Data c \<in> set alwaysComplex"
      | (block) "Data c \<notin> set alwaysComplex" "Data c \<in> set blockTags"
      | (br) "Data c \<notin> set alwaysComplex" "Data c \<notin> set blockTags" "Data c = ''br''"
      | (other) "Data c \<notin> set alwaysComplex" "Data c \<notin> set blockTags" "Data c \<noteq> ''br''"
      by blast
    then show ?thesis
    proof cases
      case complex
      with True show ?thesis by simp
    next
      case block
      from True block have ib: "isBlock c" by (simp add: isBlock_def)
      from tags_disjoint(3) [OF block(2)] have nbr: "Data c \<noteq> ''br''" .
      show ?thesis
      proof (cases "k = 0")
        case k0: True
        have "cellLoop (k + 1) cs =
          ((\<exists>c \<in> set cs. Type c = ElementNode \<and> Data c \<in> set alwaysComplex)
           \<or> k + 1 + length (filter isBlock cs) > 1
           \<or> (\<exists>c \<in> set cs. isBlock c \<and> containsBrTags c)
           \<or> (\<exists>c \<in> set cs. Type c = ElementNode \<and> Data c = ''br''))"
          using k0 by (intro Cons.IH) simp
        with True block k0 ib nbr show ?thesis
          by auto
      next
        case False
        with True block ib show ?thesis by simp
      qed
    next
      case br
      with True show ?thesis by simp
    next
      case other
      with True have "\<not> isBlock c" by (simp add: isBlock_def)
      with True other show ?thesis by (simp add: IH)
    qed
  qed
qed

lemma firstNonBlank_find:
  "firstNonBlank cs = find (\<lambda>c. \<not> (Type c = TextNode \<and> TrimSpace (Data c) = [])) cs"
  by (induction cs) auto

text \<open>
  Claim C3, as amended. A cell is complex if and only if one of its children (not a
  deeper descendant) is a \<open>ul\<close>, \<open>ol\<close>, \<open>div\<close>, \<open>blockquote\<close>, \<open>pre\<close>, \<open>table\<close> or
  \<open>ac:task-list\<close> element; or more than one child is a paragraph or heading; or a child
  that is a paragraph or heading contains a \<open>br\<close> at any depth; or a child is a \<open>br\<close>.
  Otherwise the cell is simple: its content is what the converter renders for the first
  child that is not a text node of white space only, trimmed, with a single space for an
  empty result or \<open>&nbsp;\<close>.
\<close>

theorem cell_classification:
  "cellHasComplexContent cell =
     ((\<exists>c \<in> set (Children cell). Type c = ElementNode \<and> Data c \<in> set alwaysComplex)
      \<or> length (filter isBlock (Children cell)) > 1
      \<or> (\<exists>c \<in> set (Children cell). isBlock c \<and> containsBrTags c)
      \<or> (\<exists>c \<in> set (Children cell). Type c = ElementNode \<and> Data c = ''br''))
   \<and> (\<not> cellHasComplexContent cell \<longrightarrow>
        cellContent P L cell =
          (let content =
                 TrimSpace
                   (case find (\<lambda>c. \<not> (Type c = TextNode \<and> TrimSpace (Data c) = []))
                           (Children cell) of
                      None \<Rightarrow> []
                    | Some firstChild \<Rightarrow> RenderNodes L firstChild)
           in if content = [] \<or> content = ''&nbsp;'' then '' '' else content))"
proof (intro conjI impI)
  show "cellHasComplexContent cell =
     ((\<exists>c \<in> set (Children cell). Type c = ElementNode \<and> Data c \<in> set alwaysComplex)
      \<or> length (filter isBlock (Children cell)) > 1
      \<or> (\<exists>c \<in> set (Children cell). isBlock c \<and> containsBrTags c)
      \<or> (\<exists>c \<in> set (Children cell). Type c = ElementNode \<and> Data c = ''br''))"
    by (simp add: cellHasComplexContent_def cellLoop_iff)
next
  assume "\<not> cellHasComplexContent cell"
  then show "cellContent P L cell =
          (let content =
                 TrimSpace
                   (case find (\<lambda>c. \<not> (Type c = TextNode \<and> TrimSpace (Data c) = []))
                           (Children cell) of
                      None \<Rightarrow> []
                    | Some firstChild \<Rightarrow> RenderNodes L firstChild)
           in if content = [] \<or> content = ''&nbsp;'' then '' '' else content)"
    by (simp only: cellContent_def firstNonBlank_find if_False)
qed

text \<open>
  The classification in the words of the claim as first stated: a list, block quote, table,
  preformatted block or task list at any depth below the cell; or more than one paragraph
  or heading child; or a heading child that contains a line break; or a line break child.
\<close>

fun anyBelow :: "(Node \<Rightarrow> bool) \<Rightarrow> Node \<Rightarrow> bool"
  and anyAmong :: "(Node \<Rightarrow> bool) \<Rightarrow> Node list \<Rightarrow> bool" where
  "anyBelow q (Node t d a cs) = anyAmong q cs"
| "anyAmong q [] = False"
| "anyAmong q (c # cs) = (q c \<or> anyBelow q c \<or> anyAmong q cs)"

definition specComplex :: "Node \<Rightarrow> bool" where
  "specComplex cell =
     (anyBelow (\<lambda>c. Type c = ElementNode
                  \<and> Data c \<in> set [''ul'', ''ol'', ''blockquote'', ''table'', ''pre'', ''ac:task-list''])
        cell
      \<or> length (filter isBlock (Children cell)) > 1
      \<or> (\<exists>c \<in> set (Children cell). Type c = ElementNode \<and> Data c \<in> set headingTags
                                      \<and> containsBrTags c)
      \<or> (\<exists>c \<in> set (Children cell). Type c = ElementNode \<and> Data c = ''br''))"

definition twoLineCell :: Node where
  "twoLineCell = element ''td'' [] [element ''p'' [] [textNode ''a'', element ''br'' [] [], textNode ''b'']]"

definition wrappedListCell :: Node where
  "wrappedListCell =
     element ''td'' [] [element ''span'' [] [element ''ul'' [] [element ''li'' [] [textNode ''a'']]]]"

text \<open>
  The two classifications differ both ways: a cell whose one paragraph contains a line
  break is complex for the code and simple by the words; a cell whose list sits inside
  a \<open>span\<close> is simple for the code and complex by the words.
\<close>

theorem cell_classification_counterexample:
  "cellHasComplexContent twoLineCell \<and> \<not> specComplex twoLineCell
   \<and> \<not> cellHasComplexContent wrappedListCell \<and> specComplex wrappedListCell"
  by (simp add: cellHasComplexContent_def specComplex_def twoLineCell_def wrappedListCell_def
        element_def textNode_def alwaysComplex_def blockTags_def headingTags_def isBlock_def)

definition simpleCell :: Node where
  "simpleCell = element ''td'' [] [textNode '' '', element ''p'' [] [textNode ''x''], textNode ''y'']"

theorem cell_classification_witness:
  "\<not> cellHasComplexContent simpleCell
   \<and> cellContent examplePlugin exampleLib simpleCell = ''x''
   \<and> cellHasComplexContent twoLineCell"
proof -
  have n: "\<not> cellHasComplexContent simpleCell"
    by code_simp
  have v: "(let content =
                 TrimSpace
                   (case find (\<lambda>c. \<not> (Type c = TextNode \<and> TrimSpace (Data c) = []))
                           (Children simpleCell) of
                      None \<Rightarrow> []
                    | Some firstChild \<Rightarrow> RenderNodes exampleLib firstChild)
           in if content = [] \<or> content = ''&nbsp;'' then '' '' else content) = ''x''"
    by code_simp
  have c: "cellHasComplexContent twoLineCell"
    by code_simp
  from cell_classification [of simpleCell examplePlugin exampleLib] n v c
  show ?thesis by (simp only: simp_thms)
qed

section \<open>The separator line of a table\<close>

definition headerBelowTable :: Node where
  "headerBelowTable =
     element ''table'' []
       [element ''tbody'' []
          [element ''tr'' [] [element ''td'' [] []],
           element ''tr'' [] [element ''th'' [] []]]]"

lemma runes_Nil: "runes [] = []"
  by (simp add: runes.simps)

lemma TrimSpace_Nil: "TrimSpace [] = []"
  by (simp add: TrimSpace_def runes_Nil bytesOf_def)

text \<open>
  Claim C1 at a table whose first row has a \<open>td\<close> and whose second row is all \<open>th\<close>
  (both cells empty): \<open>handleTable\<close> handles the table and writes the two row lines and no
  separator line, since row 0 is not a header row and the table has a header row.
\<close>

theorem handleTable_header_below:
  "handleTable P L headerBelowTable = (''|   |'' @ [NL] @ ''|   |'' @ [NL, NL], RenderSuccess)"
  by (auto simp: handleTable_def headerBelowTable_def element_def cellContent_def
        cellHasComplexContent_def TrimSpace_Nil maxCols_def padRow_def Repeat_def Let_def)

section \<open>Admonition macros\<close>

text \<open>
  The macro of the scenario, and the warning sign \<open>U+26A0 U+FE0F\<close> in UTF-8 as the
  README of the repository writes it.
\<close>

definition warningMacro :: Node where
  "warningMacro =
     element ''ac:structured-macro'' [Attribute ''ac:name'' ''warning'']
       [element ''ac:rich-text-body'' [] [element ''p'' [] [textNode ''Disk full'']]]"

definition warningSign :: string where
  "warningSign = [CHR 0xE2, CHR 0x9A, CHR 0xA0, CHR 0xEF, CHR 0xB8, CHR 0x8F]"

text \<open>
  Claim C7 at the scenario's input, with a library that renders the paragraph as its
  text between blank lines: the output is a block quote line with the label and the body,
  and the bytes before the label are those of the literal in \<open>confluence.go\<close>, which are
  not the bytes of the warning sign.
\<close>

theorem warning_macro_bytes:
  "handleMacro examplePlugin exampleLib warningMacro
     = (''> '' @ emojiWarning @ '' **Warning:** Disk full'', RenderSuccess)
   \<and> ''> '' @ emojiWarning @ '' **Warning:** Disk full''
       \<noteq> ''> '' @ warningSign @ '' **Warning:** Disk full''"
  by code_simp

section \<open>Post-processing twice\<close>

definition nestedDoc :: string where
  "nestedDoc = [NL] @ ''- a'' @ [NL, NL] @ ''  - b'' @ [NL, NL] @ ''    - c''"

definition linkedDoc :: string where
  "linkedDoc = ''x'' @ [NL] @ ''- [a](/wiki/spaces/S/pages/1/t'' @ [NL] @ '')'' @ [NL, NL] @ ''  - b''"

text \<open>
  Claim C2, as amended. \<open>fixNestedListSpacing\<close> returns on every input, what it returns
  is a fixed point of its single-pass rewrite, and so \<open>fixNestedListSpacing\<close> is
  idempotent. (\<open>postprocessMarkdown\<close> as a whole is not: see below.)
\<close>

theorem fixNestedListSpacing_fixed_point:
  "nestedPass (fixNestedListSpacing s) = fixNestedListSpacing s
   \<and> fixNestedListSpacing (fixNestedListSpacing s) = fixNestedListSpacing s"
proof -
  have fp: "nestedPass (fixNestedListSpacing s) = fixNestedListSpacing s"
  proof (induction s rule: fixNestedListSpacing.induct)
    case (1 markdown)
    show ?case
    proof (cases "nestedPass markdown \<noteq> markdown")
      case True
      with "1.IH" show ?thesis
        by (simp add: fixNestedListSpacing.simps [of markdown])
    next
      case False
      then show ?thesis
        by (simp add: fixNestedListSpacing.simps [of markdown])
    qed
  qed
  then have "fixNestedListSpacing (fixNestedListSpacing s) = fixNestedListSpacing s"
    by (simp add: fixNestedListSpacing.simps [of "fixNestedListSpacing s"])
  with fp show ?thesis by simp
qed

theorem fixNestedListSpacing_fixed_point_witness:
  "nestedPass nestedDoc = [NL] @ ''- a'' @ [NL] @ ''  - b'' @ [NL, NL] @ ''    - c''
   \<and> fixNestedListSpacing nestedDoc = [NL] @ ''- a'' @ [NL] @ ''  - b'' @ [NL] @ ''    - c''
   \<and> nestedPass (fixNestedListSpacing nestedDoc) = fixNestedListSpacing nestedDoc"
proof -
  have a: "nestedPass nestedDoc = [NL] @ ''- a'' @ [NL] @ ''  - b'' @ [NL, NL] @ ''    - c''"
    by code_simp
  have b: "fixNestedListSpacing nestedDoc = [NL] @ ''- a'' @ [NL] @ ''  - b'' @ [NL] @ ''    - c''"
    by code_simp
  from fixNestedListSpacing_fixed_point [of nestedDoc] a b show ?thesis
    by (simp only: simp_thms)
qed

text \<open>
  The claim as first stated has \<open>postprocessMarkdown\<close> idempotent on every text. The link
  rewrite runs after the list pass: here it shortens a link target that spans two lines,
  and only then is the blank line before the nested item one the list pass removes.
\<close>

theorem postprocessMarkdown_not_idempotent:
  "postprocessMarkdown linkedDoc
     = ''x'' @ [NL] @ ''- [a](confluence://pageId/1)'' @ [NL, NL] @ ''  - b''
   \<and> postprocessMarkdown (postprocessMarkdown linkedDoc)
     = ''x'' @ [NL] @ ''- [a](confluence://pageId/1)'' @ [NL] @ ''  - b''
   \<and> postprocessMarkdown (postprocessMarkdown linkedDoc) \<noteq> postprocessMarkdown linkedDoc"
  by code_simp

end
